theory Spec2Isabelle
  imports Complex_Main "HOL-Library.Word"
begin

section \<open>Numbers, vectors and matrices\<close>

text \<open>
  The program computes with C++ \<open>double\<close>, \<open>long\<close>, \<open>int\<close> and \<open>size_t\<close>, and with
  Eigen's dense vectors and matrices of run-time size. A \<open>double\<close> is idealised as a
  \<^typ>\<open>real\<close>: rounding, infinities and NaN are outside this development, which is about
  which expression the code evaluates. \<open>size_t\<close> and \<open>long\<close> are 64-bit words (an LP64
  platform); a \<open>long\<close> is read in two's complement with \<^const>\<open>sint\<close>, and its conversion
  to \<open>size_t\<close> keeps the bits. An Eigen vector is the list of its coefficients, an Eigen
  matrix the list of its rows.
\<close>

type_synonym size_t = "64 word"
type_synonym long = "64 word"
type_synonym vec = "real list"
type_synonym mat = "real list list"

text \<open>
  The Eigen expressions the source uses. Eigen requires the two operands of a sum to have
  the same size; here a sum runs over the common prefix, and every statement about a sum
  below names the sizes.
\<close>

definition scalar_times_vec :: "real \<Rightarrow> vec \<Rightarrow> vec" where
  \<comment> \<open>\<open>a * v\<close>\<close>
  "scalar_times_vec a v = map (\<lambda>x. a * x) v"

definition vec_times_scalar :: "vec \<Rightarrow> real \<Rightarrow> vec" where
  \<comment> \<open>\<open>v * a\<close>\<close>
  "vec_times_scalar v a = map (\<lambda>x. x * a) v"

definition vec_plus :: "vec \<Rightarrow> vec \<Rightarrow> vec" where
  \<comment> \<open>\<open>u + v\<close>\<close>
  "vec_plus u v = map2 (\<lambda>x y. x + y) u v"

definition outer :: "vec \<Rightarrow> vec \<Rightarrow> mat" where
  \<comment> \<open>\<open>u * v.transpose()\<close>\<close>
  "outer u v = map (\<lambda>x. map (\<lambda>y. x * y) v) u"

definition scalar_times_mat :: "real \<Rightarrow> mat \<Rightarrow> mat" where
  \<comment> \<open>\<open>a * M\<close>\<close>
  "scalar_times_mat a M = map (map (\<lambda>x. a * x)) M"

definition mat_times_scalar :: "mat \<Rightarrow> real \<Rightarrow> mat" where
  \<comment> \<open>\<open>M * a\<close>\<close>
  "mat_times_scalar M a = map (map (\<lambda>x. x * a)) M"

definition mat_plus :: "mat \<Rightarrow> mat \<Rightarrow> mat" where
  \<comment> \<open>\<open>A + B\<close>\<close>
  "mat_plus A B = map2 (\<lambda>r s. map2 (\<lambda>x y. x + y) r s) A B"

text \<open>
  \<open>V.row(i)\<close> and \<open>E(i, k)\<close>. The source does not check an index against the mesh: a row
  that does not exist is undefined behaviour there, and no statement below depends on
  the value it has here.
\<close>

definition row :: "'a list \<Rightarrow> int \<Rightarrow> 'a" where
  "row V i = V ! nat i"

definition coeff :: "int list list \<Rightarrow> int \<Rightarrow> nat \<Rightarrow> int" where
  "coeff E i k = row E i ! k"

text \<open>
  The entries of a vector of size \<open>n\<close> and of an \<open>n \<times> n\<close> matrix, given as functions of
  the indices: the notation in which the formulas of the specification are written.
\<close>

definition vector_of :: "nat \<Rightarrow> (nat \<Rightarrow> real) \<Rightarrow> vec" where
  "vector_of n f = map f [0..<n]"

definition matrix_of :: "nat \<Rightarrow> (nat \<Rightarrow> nat \<Rightarrow> real) \<Rightarrow> mat" where
  "matrix_of n f = map (\<lambda>i. map (\<lambda>j. f i j) [0..<n]) [0..<n]"

definition square :: "nat \<Rightarrow> mat \<Rightarrow> bool" where
  "square n M = (length M = n \<and> list_all (\<lambda>r. length r = n) M)"

section \<open>External collaborators\<close>

text \<open>
  The barrier, the distance functions, the edge-edge mollifier and the projection onto
  the positive semidefinite cone are declared in headers that the translation unit
  includes and are not defined in it. They are parameters of the model, together with
  the one build setting the code depends on: \<open>NDEBUG\<close>, under which \<open>assert\<close> checks
  nothing. \<open>edge_edge_distance_auto\<close> is the call of \<open>edge_edge_distance\<close> with four
  arguments. A function that writes its result through a reference parameter returns it
  here. Of the distance-type enumerations the code names one enumerator each for
  point-edge and point-triangle, and none for edge-edge, where the value of the
  classifier is only passed on: its type is a type parameter.
\<close>

datatype PointEdgeDistanceType = P_E
datatype PointTriangleDistanceType = P_T

record 'dt externals =
  barrier :: "real \<Rightarrow> real \<Rightarrow> real"
  barrier_gradient :: "real \<Rightarrow> real \<Rightarrow> real"
  barrier_hessian :: "real \<Rightarrow> real \<Rightarrow> real"
  project_to_psd :: "mat \<Rightarrow> mat"
  point_point_distance :: "vec \<Rightarrow> vec \<Rightarrow> real"
  point_point_distance_gradient :: "vec \<Rightarrow> vec \<Rightarrow> vec"
  point_point_distance_hessian :: "vec \<Rightarrow> vec \<Rightarrow> mat"
  point_edge_distance :: "vec \<Rightarrow> vec \<Rightarrow> vec \<Rightarrow> PointEdgeDistanceType \<Rightarrow> real"
  point_edge_distance_gradient :: "vec \<Rightarrow> vec \<Rightarrow> vec \<Rightarrow> PointEdgeDistanceType \<Rightarrow> vec"
  point_edge_distance_hessian :: "vec \<Rightarrow> vec \<Rightarrow> vec \<Rightarrow> PointEdgeDistanceType \<Rightarrow> mat"
  point_triangle_distance ::
    "vec \<Rightarrow> vec \<Rightarrow> vec \<Rightarrow> vec \<Rightarrow> PointTriangleDistanceType \<Rightarrow> real"
  point_triangle_distance_gradient ::
    "vec \<Rightarrow> vec \<Rightarrow> vec \<Rightarrow> vec \<Rightarrow> PointTriangleDistanceType \<Rightarrow> vec"
  point_triangle_distance_hessian ::
    "vec \<Rightarrow> vec \<Rightarrow> vec \<Rightarrow> vec \<Rightarrow> PointTriangleDistanceType \<Rightarrow> mat"
  edge_edge_distance_type :: "vec \<Rightarrow> vec \<Rightarrow> vec \<Rightarrow> vec \<Rightarrow> 'dt"
  edge_edge_distance_auto :: "vec \<Rightarrow> vec \<Rightarrow> vec \<Rightarrow> vec \<Rightarrow> real"
  edge_edge_distance :: "vec \<Rightarrow> vec \<Rightarrow> vec \<Rightarrow> vec \<Rightarrow> 'dt \<Rightarrow> real"
  edge_edge_distance_gradient :: "vec \<Rightarrow> vec \<Rightarrow> vec \<Rightarrow> vec \<Rightarrow> 'dt \<Rightarrow> vec"
  edge_edge_distance_hessian :: "vec \<Rightarrow> vec \<Rightarrow> vec \<Rightarrow> vec \<Rightarrow> 'dt \<Rightarrow> mat"
  edge_edge_mollifier :: "vec \<Rightarrow> vec \<Rightarrow> vec \<Rightarrow> vec \<Rightarrow> real \<Rightarrow> real"
  edge_edge_mollifier_gradient :: "vec \<Rightarrow> vec \<Rightarrow> vec \<Rightarrow> vec \<Rightarrow> real \<Rightarrow> vec"
  edge_edge_mollifier_hessian :: "vec \<Rightarrow> vec \<Rightarrow> vec \<Rightarrow> vec \<Rightarrow> real \<Rightarrow> mat"
  point_plane_distance :: "vec \<Rightarrow> vec \<Rightarrow> vec \<Rightarrow> real"
  point_plane_distance_gradient :: "vec \<Rightarrow> vec \<Rightarrow> vec \<Rightarrow> vec"
  point_plane_distance_hessian :: "vec \<Rightarrow> vec \<Rightarrow> vec \<Rightarrow> mat"
  NDEBUG :: bool

section \<open>Constraints\<close>

text \<open>
  \<open>CollisionConstraint\<close> is the base class of the five variants; each variant adds the
  indices of its primitives (inherited from the candidate of the same shape in the
  source) and its own members.
\<close>

record CollisionConstraint =
  minimum_distance :: real

record VertexVertexConstraint = CollisionConstraint +
  vertex0_index :: long
  vertex1_index :: long
  multiplicity :: long

record EdgeVertexConstraint = CollisionConstraint +
  edge_index :: long
  vertex_index :: long
  multiplicity :: long

record EdgeEdgeConstraint = CollisionConstraint +
  edge0_index :: long
  edge1_index :: long
  eps_x :: real

record FaceVertexConstraint = CollisionConstraint +
  face_index :: long
  vertex_index :: long

record PlaneVertexConstraint = CollisionConstraint +
  plane_origin :: vec
  plane_normal :: vec
  vertex_index :: long

datatype error = assertion_failed string | out_of_range string

text \<open>A \<open>long\<close> converted to \<open>double\<close>.\<close>

definition double_of_long :: "long \<Rightarrow> real" where
  "double_of_long m = real_of_int (sint m)"

subsection \<open>The shared barrier compositions\<close>

definition compute_potential_common ::
  "'dt externals \<Rightarrow> 'a CollisionConstraint_scheme \<Rightarrow> real \<Rightarrow> real \<Rightarrow> real" where
  "compute_potential_common ext c distance dhat =
     (let dhat_squared = dhat * dhat
      in barrier ext
           (distance - minimum_distance c * minimum_distance c)
           (2 * minimum_distance c * dhat + dhat_squared))"

definition compute_potential_gradient_common ::
  "'dt externals \<Rightarrow> 'a CollisionConstraint_scheme \<Rightarrow> real \<Rightarrow> vec \<Rightarrow> real \<Rightarrow> vec" where
  "compute_potential_gradient_common ext c distance distance_grad dhat =
     (let dhat_squared = dhat * dhat;
          grad_b = barrier_gradient ext
            (distance - minimum_distance c * minimum_distance c)
            (2 * minimum_distance c * dhat + dhat_squared)
      in scalar_times_vec grad_b distance_grad)"

definition compute_potential_hessian_common ::
  "'dt externals \<Rightarrow> 'a CollisionConstraint_scheme \<Rightarrow> real \<Rightarrow> vec \<Rightarrow> mat \<Rightarrow> real \<Rightarrow> bool
     \<Rightarrow> error + mat" where
  "compute_potential_hessian_common ext c distance distance_grad distance_hess dhat
       project_hessian_to_psd =
     (let dhat_squared = dhat * dhat;
          min_dist_squrared = minimum_distance c * minimum_distance c;
          grad_b = barrier_gradient ext
            (distance - min_dist_squrared) (2 * minimum_distance c * dhat + dhat_squared);
          hess_b = barrier_hessian ext
            (distance - min_dist_squrared) (2 * minimum_distance c * dhat + dhat_squared)
      in if \<not> NDEBUG ext \<and> \<not> hess_b \<ge> 0 then Inl (assertion_failed ''hess_b >= 0'')
         else Inr (mat_plus
                (outer (scalar_times_vec hess_b distance_grad) distance_grad)
                (if project_hessian_to_psd
                 then project_to_psd ext (scalar_times_mat grad_b distance_hess)
                 else scalar_times_mat grad_b distance_hess)))"

text \<open>\<open>multiplicity * H\<close> for the result of a composition that may have stopped at its assertion.\<close>

definition long_times_result :: "long \<Rightarrow> error + mat \<Rightarrow> error + mat" where
  "long_times_result m r =
     (case r of Inl e \<Rightarrow> Inl e | Inr H \<Rightarrow> Inr (scalar_times_mat (double_of_long m) H))"

subsection \<open>Vertex-vertex\<close>

definition VertexVertexConstraint_compute_potential ::
  "'dt externals \<Rightarrow> VertexVertexConstraint \<Rightarrow> vec list \<Rightarrow> int list list \<Rightarrow> int list list
     \<Rightarrow> real \<Rightarrow> real" where
  "VertexVertexConstraint_compute_potential ext c V E F dhat =
     (let distance = point_point_distance ext
            (row V (sint (vertex0_index c))) (row V (sint (vertex1_index c)))
      in double_of_long (VertexVertexConstraint.multiplicity c)
           * compute_potential_common ext c distance dhat)"

definition VertexVertexConstraint_compute_potential_gradient ::
  "'dt externals \<Rightarrow> VertexVertexConstraint \<Rightarrow> vec list \<Rightarrow> int list list \<Rightarrow> int list list
     \<Rightarrow> real \<Rightarrow> vec" where
  "VertexVertexConstraint_compute_potential_gradient ext c V E F dhat =
     (let p0 = row V (sint (vertex0_index c));
          p1 = row V (sint (vertex1_index c));
          distance_grad = point_point_distance_gradient ext p0 p1;
          distance = point_point_distance ext p0 p1
      in scalar_times_vec (double_of_long (VertexVertexConstraint.multiplicity c))
           (compute_potential_gradient_common ext c distance distance_grad dhat))"

definition VertexVertexConstraint_compute_potential_hessian ::
  "'dt externals \<Rightarrow> VertexVertexConstraint \<Rightarrow> vec list \<Rightarrow> int list list \<Rightarrow> int list list
     \<Rightarrow> real \<Rightarrow> bool \<Rightarrow> error + mat" where
  "VertexVertexConstraint_compute_potential_hessian ext c V E F dhat project_hessian_to_psd =
     (let p0 = row V (sint (vertex0_index c));
          p1 = row V (sint (vertex1_index c));
          distance = point_point_distance ext p0 p1;
          distance_grad = point_point_distance_gradient ext p0 p1;
          distance_hess = point_point_distance_hessian ext p0 p1
      in long_times_result (VertexVertexConstraint.multiplicity c)
           (compute_potential_hessian_common ext c distance distance_grad distance_hess dhat
              project_hessian_to_psd))"

subsection \<open>Edge-vertex\<close>

definition EdgeVertexConstraint_compute_potential ::
  "'dt externals \<Rightarrow> EdgeVertexConstraint \<Rightarrow> vec list \<Rightarrow> int list list \<Rightarrow> int list list
     \<Rightarrow> real \<Rightarrow> real" where
  "EdgeVertexConstraint_compute_potential ext c V E F dhat =
     (let distance = point_edge_distance ext
            (row V (sint (EdgeVertexConstraint.vertex_index c)))
            (row V (coeff E (sint (edge_index c)) 0))
            (row V (coeff E (sint (edge_index c)) 1)) P_E
      in double_of_long (EdgeVertexConstraint.multiplicity c)
           * compute_potential_common ext c distance dhat)"

definition EdgeVertexConstraint_compute_potential_gradient ::
  "'dt externals \<Rightarrow> EdgeVertexConstraint \<Rightarrow> vec list \<Rightarrow> int list list \<Rightarrow> int list list
     \<Rightarrow> real \<Rightarrow> vec" where
  "EdgeVertexConstraint_compute_potential_gradient ext c V E F dhat =
     (let p = row V (sint (EdgeVertexConstraint.vertex_index c));
          e0 = row V (coeff E (sint (edge_index c)) 0);
          e1 = row V (coeff E (sint (edge_index c)) 1);
          distance_grad = point_edge_distance_gradient ext p e0 e1 P_E;
          distance = point_edge_distance ext p e0 e1 P_E
      in scalar_times_vec (double_of_long (EdgeVertexConstraint.multiplicity c))
           (compute_potential_gradient_common ext c distance distance_grad dhat))"

definition EdgeVertexConstraint_compute_potential_hessian ::
  "'dt externals \<Rightarrow> EdgeVertexConstraint \<Rightarrow> vec list \<Rightarrow> int list list \<Rightarrow> int list list
     \<Rightarrow> real \<Rightarrow> bool \<Rightarrow> error + mat" where
  "EdgeVertexConstraint_compute_potential_hessian ext c V E F dhat project_hessian_to_psd =
     (let p = row V (sint (EdgeVertexConstraint.vertex_index c));
          e0 = row V (coeff E (sint (edge_index c)) 0);
          e1 = row V (coeff E (sint (edge_index c)) 1);
          distance = point_edge_distance ext p e0 e1 P_E;
          distance_grad = point_edge_distance_gradient ext p e0 e1 P_E;
          distance_hess = point_edge_distance_hessian ext p e0 e1 P_E
      in long_times_result (EdgeVertexConstraint.multiplicity c)
           (compute_potential_hessian_common ext c distance distance_grad distance_hess dhat
              project_hessian_to_psd))"

subsection \<open>Edge-edge\<close>

definition EdgeEdgeConstraint_compute_potential ::
  "'dt externals \<Rightarrow> EdgeEdgeConstraint \<Rightarrow> vec list \<Rightarrow> int list list \<Rightarrow> int list list
     \<Rightarrow> real \<Rightarrow> real" where
  "EdgeEdgeConstraint_compute_potential ext c V E F dhat =
     (let ea0 = row V (coeff E (sint (edge0_index c)) 0);
          ea1 = row V (coeff E (sint (edge0_index c)) 1);
          eb0 = row V (coeff E (sint (edge1_index c)) 0);
          eb1 = row V (coeff E (sint (edge1_index c)) 1);
          distance = edge_edge_distance_auto ext ea0 ea1 eb0 eb1
      in edge_edge_mollifier ext ea0 ea1 eb0 eb1 (eps_x c)
           * compute_potential_common ext c distance dhat)"

definition EdgeEdgeConstraint_compute_potential_gradient ::
  "'dt externals \<Rightarrow> EdgeEdgeConstraint \<Rightarrow> vec list \<Rightarrow> int list list \<Rightarrow> int list list
     \<Rightarrow> real \<Rightarrow> vec" where
  "EdgeEdgeConstraint_compute_potential_gradient ext c V E F dhat =
     (let dhat_squared = dhat * dhat;
          ea0 = row V (coeff E (sint (edge0_index c)) 0);
          ea1 = row V (coeff E (sint (edge0_index c)) 1);
          eb0 = row V (coeff E (sint (edge1_index c)) 0);
          eb1 = row V (coeff E (sint (edge1_index c)) 1);
          dtype = edge_edge_distance_type ext ea0 ea1 eb0 eb1;
          distance = edge_edge_distance ext ea0 ea1 eb0 eb1 dtype;
          distance_grad = edge_edge_distance_gradient ext ea0 ea1 eb0 eb1 dtype;
          mollifier = edge_edge_mollifier ext ea0 ea1 eb0 eb1 (eps_x c);
          mollifier_grad = edge_edge_mollifier_gradient ext ea0 ea1 eb0 eb1 (eps_x c);
          b = barrier ext
            (distance - minimum_distance c * minimum_distance c)
            (2 * minimum_distance c * dhat + dhat_squared);
          barrier_distance_grad =
            compute_potential_gradient_common ext c distance distance_grad dhat
      in vec_plus (vec_times_scalar mollifier_grad b)
           (scalar_times_vec mollifier barrier_distance_grad))"

definition EdgeEdgeConstraint_compute_potential_hessian ::
  "'dt externals \<Rightarrow> EdgeEdgeConstraint \<Rightarrow> vec list \<Rightarrow> int list list \<Rightarrow> int list list
     \<Rightarrow> real \<Rightarrow> bool \<Rightarrow> mat" where
  "EdgeEdgeConstraint_compute_potential_hessian ext c V E F dhat project_hessian_to_psd =
     (let dhat_squared = dhat * dhat;
          min_dist_squrared = minimum_distance c * minimum_distance c;
          ea0 = row V (coeff E (sint (edge0_index c)) 0);
          ea1 = row V (coeff E (sint (edge0_index c)) 1);
          eb0 = row V (coeff E (sint (edge1_index c)) 0);
          eb1 = row V (coeff E (sint (edge1_index c)) 1);
          dtype = edge_edge_distance_type ext ea0 ea1 eb0 eb1;
          distance = edge_edge_distance ext ea0 ea1 eb0 eb1 dtype;
          distance_grad = edge_edge_distance_gradient ext ea0 ea1 eb0 eb1 dtype;
          distance_hess = edge_edge_distance_hessian ext ea0 ea1 eb0 eb1 dtype;
          mollifier = edge_edge_mollifier ext ea0 ea1 eb0 eb1 (eps_x c);
          mollifier_grad = edge_edge_mollifier_gradient ext ea0 ea1 eb0 eb1 (eps_x c);
          mollifier_hess = edge_edge_mollifier_hessian ext ea0 ea1 eb0 eb1 (eps_x c);
          b = barrier ext
            (distance - min_dist_squrared) (2 * minimum_distance c * dhat + dhat_squared);
          grad_b = barrier_gradient ext
            (distance - min_dist_squrared) (2 * minimum_distance c * dhat + dhat_squared);
          hess_b = barrier_hessian ext
            (distance - min_dist_squrared) (2 * minimum_distance c * dhat + dhat_squared);
          hess = mat_plus
            (mat_plus
               (mat_times_scalar mollifier_hess b)
               (scalar_times_mat grad_b
                  (mat_plus (outer distance_grad mollifier_grad)
                     (outer mollifier_grad distance_grad))))
            (scalar_times_mat mollifier
               (mat_plus
                  (outer (scalar_times_vec hess_b distance_grad) distance_grad)
                  (scalar_times_mat grad_b distance_hess)))
      in if project_hessian_to_psd then project_to_psd ext hess else hess)"

subsection \<open>Face-vertex\<close>

definition FaceVertexConstraint_compute_potential ::
  "'dt externals \<Rightarrow> FaceVertexConstraint \<Rightarrow> vec list \<Rightarrow> int list list \<Rightarrow> int list list
     \<Rightarrow> real \<Rightarrow> real" where
  "FaceVertexConstraint_compute_potential ext c V E F dhat =
     (let distance = point_triangle_distance ext
            (row V (sint (FaceVertexConstraint.vertex_index c)))
            (row V (coeff F (sint (face_index c)) 0))
            (row V (coeff F (sint (face_index c)) 1))
            (row V (coeff F (sint (face_index c)) 2)) P_T
      in compute_potential_common ext c distance dhat)"

definition FaceVertexConstraint_compute_potential_gradient ::
  "'dt externals \<Rightarrow> FaceVertexConstraint \<Rightarrow> vec list \<Rightarrow> int list list \<Rightarrow> int list list
     \<Rightarrow> real \<Rightarrow> vec" where
  "FaceVertexConstraint_compute_potential_gradient ext c V E F dhat =
     (let p = row V (sint (FaceVertexConstraint.vertex_index c));
          t0 = row V (coeff F (sint (face_index c)) 0);
          t1 = row V (coeff F (sint (face_index c)) 1);
          t2 = row V (coeff F (sint (face_index c)) 2);
          distance = point_triangle_distance ext p t0 t1 t2 P_T;
          distance_grad = point_triangle_distance_gradient ext p t0 t1 t2 P_T
      in compute_potential_gradient_common ext c distance distance_grad dhat)"

definition FaceVertexConstraint_compute_potential_hessian ::
  "'dt externals \<Rightarrow> FaceVertexConstraint \<Rightarrow> vec list \<Rightarrow> int list list \<Rightarrow> int list list
     \<Rightarrow> real \<Rightarrow> bool \<Rightarrow> error + mat" where
  "FaceVertexConstraint_compute_potential_hessian ext c V E F dhat project_hessian_to_psd =
     (let p = row V (sint (FaceVertexConstraint.vertex_index c));
          t0 = row V (coeff F (sint (face_index c)) 0);
          t1 = row V (coeff F (sint (face_index c)) 1);
          t2 = row V (coeff F (sint (face_index c)) 2);
          distance = point_triangle_distance ext p t0 t1 t2 P_T;
          distance_grad = point_triangle_distance_gradient ext p t0 t1 t2 P_T;
          distance_hess = point_triangle_distance_hessian ext p t0 t1 t2 P_T
      in compute_potential_hessian_common ext c distance distance_grad distance_hess dhat
           project_hessian_to_psd)"

subsection \<open>Plane-vertex\<close>

definition PlaneVertexConstraint_compute_potential ::
  "'dt externals \<Rightarrow> PlaneVertexConstraint \<Rightarrow> vec list \<Rightarrow> int list list \<Rightarrow> int list list
     \<Rightarrow> real \<Rightarrow> real" where
  "PlaneVertexConstraint_compute_potential ext c V E F dhat =
     (let distance = point_plane_distance ext
            (row V (sint (PlaneVertexConstraint.vertex_index c)))
            (plane_origin c) (plane_normal c)
      in compute_potential_common ext c distance dhat)"

definition PlaneVertexConstraint_compute_potential_gradient ::
  "'dt externals \<Rightarrow> PlaneVertexConstraint \<Rightarrow> vec list \<Rightarrow> int list list \<Rightarrow> int list list
     \<Rightarrow> real \<Rightarrow> vec" where
  "PlaneVertexConstraint_compute_potential_gradient ext c V E F dhat =
     (let p = row V (sint (PlaneVertexConstraint.vertex_index c));
          distance = point_plane_distance ext p (plane_origin c) (plane_normal c);
          distance_grad = point_plane_distance_gradient ext p (plane_origin c) (plane_normal c)
      in compute_potential_gradient_common ext c distance distance_grad dhat)"

definition PlaneVertexConstraint_compute_potential_hessian ::
  "'dt externals \<Rightarrow> PlaneVertexConstraint \<Rightarrow> vec list \<Rightarrow> int list list \<Rightarrow> int list list
     \<Rightarrow> real \<Rightarrow> bool \<Rightarrow> error + mat" where
  "PlaneVertexConstraint_compute_potential_hessian ext c V E F dhat project_hessian_to_psd =
     (let p = row V (sint (PlaneVertexConstraint.vertex_index c));
          distance = point_plane_distance ext p (plane_origin c) (plane_normal c);
          distance_grad = point_plane_distance_gradient ext p (plane_origin c) (plane_normal c);
          distance_hess = point_plane_distance_hessian ext p (plane_origin c) (plane_normal c)
      in compute_potential_hessian_common ext c distance distance_grad distance_hess dhat
           project_hessian_to_psd)"

section \<open>The constraint set\<close>

text \<open>
  \<open>Constraints\<close> holds one \<open>std::vector\<close> per variant. \<open>operator[]\<close> returns a reference
  to the base class; the variant of the object it refers to is the constructor here.
\<close>

record Constraints =
  vv_constraints :: "VertexVertexConstraint list"
  ev_constraints :: "EdgeVertexConstraint list"
  ee_constraints :: "EdgeEdgeConstraint list"
  fv_constraints :: "FaceVertexConstraint list"
  pv_constraints :: "PlaneVertexConstraint list"

datatype constraint_ref =
    VertexVertex VertexVertexConstraint
  | EdgeVertex EdgeVertexConstraint
  | EdgeEdge EdgeEdgeConstraint
  | FaceVertex FaceVertexConstraint
  | PlaneVertex PlaneVertexConstraint

definition vector_size :: "'a list \<Rightarrow> size_t" where
  \<comment> \<open>\<open>std::vector::size()\<close>\<close>
  "vector_size xs = of_nat (length xs)"

definition vector_at :: "'a list \<Rightarrow> size_t \<Rightarrow> 'a" where
  \<comment> \<open>\<open>std::vector::operator[]\<close>, called by the source below the size only\<close>
  "vector_at xs idx = xs ! unat idx"

definition size_t_of_long :: "long \<Rightarrow> size_t" where
  \<comment> \<open>the integral conversion: the value modulo \<open>2 ^ 64\<close>\<close>
  "size_t_of_long m = word_of_int (sint m)"

definition Constraints_size :: "Constraints \<Rightarrow> size_t" where
  "Constraints_size cs =
     vector_size (vv_constraints cs) + vector_size (ev_constraints cs)
       + vector_size (ee_constraints cs) + vector_size (fv_constraints cs)
       + vector_size (pv_constraints cs)"

definition Constraints_num_constraints :: "Constraints \<Rightarrow> size_t" where
  "Constraints_num_constraints cs =
     (let num_constraints = 0;
          num_constraints = fold
            (\<lambda>vv_constraint n. n + size_t_of_long (VertexVertexConstraint.multiplicity vv_constraint))
            (vv_constraints cs) num_constraints;
          num_constraints = fold
            (\<lambda>ev_constraint n. n + size_t_of_long (EdgeVertexConstraint.multiplicity ev_constraint))
            (ev_constraints cs) num_constraints
      in num_constraints
           + (vector_size (ee_constraints cs) + vector_size (fv_constraints cs)
                + vector_size (pv_constraints cs)))"

definition Constraints_empty :: "Constraints \<Rightarrow> bool" where
  "Constraints_empty cs =
     (vv_constraints cs = [] \<and> ev_constraints cs = [] \<and> ee_constraints cs = []
        \<and> fv_constraints cs = [] \<and> pv_constraints cs = [])"

definition Constraints_clear :: "Constraints \<Rightarrow> Constraints" where
  "Constraints_clear cs =
     cs\<lparr>vv_constraints := [], ev_constraints := [], ee_constraints := [],
        fv_constraints := [], pv_constraints := []\<rparr>"

text \<open>
  \<open>operator[]\<close>: the test for a negative index, then the five ranges in turn, the index
  reduced by the size of each sequence it is beyond. The ranges and the final
  \<open>throw\<close> are the same text in the two overloads and are one definition here. The
  overload that is not \<open>const\<close> also returns the set as the call leaves it.
\<close>

definition range_lookup :: "Constraints \<Rightarrow> size_t \<Rightarrow> error + constraint_ref" where
  "range_lookup cs idx =
     (if idx < vector_size (vv_constraints cs)
      then Inr (VertexVertex (vector_at (vv_constraints cs) idx))
      else let idx = idx - vector_size (vv_constraints cs) in
      if idx < vector_size (ev_constraints cs)
      then Inr (EdgeVertex (vector_at (ev_constraints cs) idx))
      else let idx = idx - vector_size (ev_constraints cs) in
      if idx < vector_size (ee_constraints cs)
      then Inr (EdgeEdge (vector_at (ee_constraints cs) idx))
      else let idx = idx - vector_size (ee_constraints cs) in
      if idx < vector_size (fv_constraints cs)
      then Inr (FaceVertex (vector_at (fv_constraints cs) idx))
      else let idx = idx - vector_size (fv_constraints cs) in
      if idx < vector_size (pv_constraints cs)
      then Inr (PlaneVertex (vector_at (pv_constraints cs) idx))
      else Inl (out_of_range ''Constraint index is out of range!''))"

definition Constraints_subscript ::
  "Constraints \<Rightarrow> size_t \<Rightarrow> (error + constraint_ref) \<times> Constraints" where
  "Constraints_subscript cs idx =
     (if idx < 0 then (Inl (out_of_range ''Constraint index is out of range!''), cs)
      else (range_lookup cs idx, cs))"

definition Constraints_subscript_const :: "Constraints \<Rightarrow> size_t \<Rightarrow> error + constraint_ref" where
  "Constraints_subscript_const cs idx =
     (if idx < 0 then Inl (out_of_range ''Constraint index is out of range!'')
      else range_lookup cs idx)"

text \<open>
  The instances of a set in the order of the five sequences, and the sets a program
  can hold: the five vectors share one address space, so together they have fewer than
  \<open>2 ^ 64\<close> elements.
\<close>

definition all_constraints :: "Constraints \<Rightarrow> constraint_ref list" where
  "all_constraints cs =
     map VertexVertex (vv_constraints cs) @ map EdgeVertex (ev_constraints cs)
       @ map EdgeEdge (ee_constraints cs) @ map FaceVertex (fv_constraints cs)
       @ map PlaneVertex (pv_constraints cs)"

definition instance_count :: "Constraints \<Rightarrow> nat" where
  "instance_count cs =
     length (vv_constraints cs) + length (ev_constraints cs) + length (ee_constraints cs)
       + length (fv_constraints cs) + length (pv_constraints cs)"

definition addressable :: "Constraints \<Rightarrow> bool" where
  "addressable cs = (instance_count cs < 2 ^ 64)"

text \<open>
  The multiplicities of a set as numbers, their total with the three unweighted
  sequences, and the sets whose multiplicities are all at least one.
\<close>

definition multiplicity_total :: "Constraints \<Rightarrow> int" where
  "multiplicity_total cs =
     sum_list (map (\<lambda>c. sint (VertexVertexConstraint.multiplicity c)) (vv_constraints cs))
       + sum_list (map (\<lambda>c. sint (EdgeVertexConstraint.multiplicity c)) (ev_constraints cs))
       + int (length (ee_constraints cs)) + int (length (fv_constraints cs))
       + int (length (pv_constraints cs))"

definition multiplicities_positive :: "Constraints \<Rightarrow> bool" where
  "multiplicities_positive cs =
     (list_all (\<lambda>c. 1 \<le> sint (VertexVertexConstraint.multiplicity c)) (vv_constraints cs)
        \<and> list_all (\<lambda>c. 1 \<le> sint (EdgeVertexConstraint.multiplicity c)) (ev_constraints cs))"

definition multiplicities_one :: "Constraints \<Rightarrow> bool" where
  "multiplicities_one cs =
     (list_all (\<lambda>c. VertexVertexConstraint.multiplicity c = 1) (vv_constraints cs)
        \<and> list_all (\<lambda>c. EdgeVertexConstraint.multiplicity c = 1) (ev_constraints cs))"

section \<open>The smooth friction mollifier\<close>

text \<open>
  Modelled from the spec: the bodies of \<open>smooth_friction_f0\<close>, \<open>smooth_friction_f1_over_x\<close>
  and \<open>smooth_friction_f2_x_minus_f1_over_x3\<close> are not among the sources, which hold
  their Python binding only. The three definitions are the piecewise closed forms that
  section 4.5 of the specification describes, written out as the docstrings of the
  binding give them. Each division is checked: its result is the quotient, or the error
  when the divisor is zero.
\<close>

datatype arith_error = division_by_zero

definition checked_div :: "real \<Rightarrow> real \<Rightarrow> arith_error + real" where
  "checked_div a b = (if b = 0 then Inl division_by_zero else Inr (a / b))"

definition and_then ::
  "arith_error + real \<Rightarrow> (real \<Rightarrow> arith_error + real) \<Rightarrow> arith_error + real" where
  "and_then r f = (case r of Inl e \<Rightarrow> Inl e | Inr x \<Rightarrow> f x)"

definition smooth_friction_f0 :: "real \<Rightarrow> real \<Rightarrow> arith_error + real" where
  \<comment> \<open>Modelled from the spec: the body is not among the sources.
     \<open>- s\<^sup>3 / (3 * epsv\<^sup>2) + s\<^sup>2 / epsv + epsv / 3\<close> inside, \<open>s\<close> outside.\<close>
  "smooth_friction_f0 s epsv =
     (if \<bar>s\<bar> < epsv
      then and_then (checked_div (s ^ 3) (3 * epsv ^ 2)) (\<lambda>cubic.
           and_then (checked_div (s ^ 2) epsv) (\<lambda>quadratic.
           and_then (checked_div epsv 3) (\<lambda>constant.
           Inr (- cubic + quadratic + constant))))
      else Inr s)"

definition smooth_friction_f1_over_x :: "real \<Rightarrow> real \<Rightarrow> arith_error + real" where
  \<comment> \<open>Modelled from the spec: the body is not among the sources.
     \<open>- s / epsv\<^sup>2 + 2 / epsv\<close> inside, \<open>1 / s\<close> outside.\<close>
  "smooth_friction_f1_over_x s epsv =
     (if \<bar>s\<bar> < epsv
      then and_then (checked_div s (epsv ^ 2)) (\<lambda>linear.
           and_then (checked_div 2 epsv) (\<lambda>constant.
           Inr (- linear + constant)))
      else checked_div 1 s)"

definition smooth_friction_f2_x_minus_f1_over_x3 :: "real \<Rightarrow> real \<Rightarrow> arith_error + real" where
  \<comment> \<open>Modelled from the spec: the body is not among the sources.
     \<open>- 1 / (s * epsv\<^sup>2)\<close> inside, \<open>- 1 / s\<^sup>3\<close> outside.\<close>
  "smooth_friction_f2_x_minus_f1_over_x3 s epsv =
     (if \<bar>s\<bar> < epsv
      then and_then (checked_div 1 (s * epsv ^ 2)) (\<lambda>q. Inr (- q))
      else and_then (checked_div 1 (s ^ 3)) (\<lambda>q. Inr (- q)))"

section \<open>Concrete inputs\<close>

text \<open>
  Inputs at which the statements below are evaluated: a barrier with the properties
  asked of the external one (zero from the activation threshold on, decreasing and
  convex below it, unbounded towards zero) with its two derivatives; the squared
  distance of two points of the plane with its gradient and Hessian; edge-edge
  collaborators for a mesh of two segments in the plane, which are functions of the
  right sizes and not the geometric ones; a projection that is the one onto the positive
  semidefinite cone on diagonal matrices; and constraint sets. The collaborators that no
  example calls return zeros.
\<close>

definition example_barrier :: "real \<Rightarrow> real \<Rightarrow> real" where
  "example_barrier x t = (if x < t then (t - x) ^ 3 / x else 0)"

definition example_barrier_gradient :: "real \<Rightarrow> real \<Rightarrow> real" where
  "example_barrier_gradient x t = (if x < t then - ((t - x) ^ 2 * (2 * x + t)) / x ^ 2 else 0)"

definition example_barrier_hessian :: "real \<Rightarrow> real \<Rightarrow> real" where
  "example_barrier_hessian x t = (if x < t then 2 * (t ^ 3 - x ^ 3) / x ^ 3 else 0)"

definition example_externals :: "nat externals" where
  "example_externals =
     \<lparr>barrier = example_barrier,
      barrier_gradient = example_barrier_gradient,
      barrier_hessian = example_barrier_hessian,
      project_to_psd = map (map (max 0)),
      point_point_distance = (\<lambda>p0 p1. sum_list (map2 (\<lambda>x y. (x - y) ^ 2) p0 p1)),
      point_point_distance_gradient = (\<lambda>p0 p1.
        map2 (\<lambda>x y. 2 * (x - y)) p0 p1 @ map2 (\<lambda>x y. 2 * (y - x)) p0 p1),
      point_point_distance_hessian = (\<lambda>p0 p1.
        matrix_of 4 (\<lambda>i j. if i = j then 2 else if i mod 2 = j mod 2 then - 2 else 0)),
      point_edge_distance = (\<lambda>p e0 e1 dtype. 0),
      point_edge_distance_gradient = (\<lambda>p e0 e1 dtype. []),
      point_edge_distance_hessian = (\<lambda>p e0 e1 dtype. []),
      point_triangle_distance = (\<lambda>p t0 t1 t2 dtype. 0),
      point_triangle_distance_gradient = (\<lambda>p t0 t1 t2 dtype. []),
      point_triangle_distance_hessian = (\<lambda>p t0 t1 t2 dtype. []),
      edge_edge_distance_type = (\<lambda>ea0 ea1 eb0 eb1. 0),
      edge_edge_distance_auto = (\<lambda>ea0 ea1 eb0 eb1. sum_list (map2 (\<lambda>x y. (x - y) ^ 2) ea0 eb0)),
      edge_edge_distance = (\<lambda>ea0 ea1 eb0 eb1 dtype. sum_list (map2 (\<lambda>x y. (x - y) ^ 2) ea0 eb0)),
      edge_edge_distance_gradient = (\<lambda>ea0 ea1 eb0 eb1 dtype.
        map2 (\<lambda>x y. 2 * (x - y)) ea0 eb0 @ map (\<lambda>x. 0) ea1
          @ map2 (\<lambda>x y. 2 * (y - x)) ea0 eb0 @ map (\<lambda>x. 0) eb1),
      edge_edge_distance_hessian = (\<lambda>ea0 ea1 eb0 eb1 dtype.
        matrix_of 8 (\<lambda>i j. if i = j \<and> i mod 4 < 2 then 2
                            else if i mod 4 < 2 \<and> i mod 4 = j mod 4 then - 2 else 0)),
      edge_edge_mollifier = (\<lambda>ea0 ea1 eb0 eb1 eps_x. sum_list ea1 / eps_x),
      edge_edge_mollifier_gradient = (\<lambda>ea0 ea1 eb0 eb1 eps_x.
        map (\<lambda>x. 0) ea0 @ map (\<lambda>x. 1 / eps_x) ea1 @ map (\<lambda>x. 0) eb0 @ map (\<lambda>x. 0) eb1),
      edge_edge_mollifier_hessian = (\<lambda>ea0 ea1 eb0 eb1 eps_x. matrix_of 8 (\<lambda>i j. 0)),
      point_plane_distance = (\<lambda>p origin normal. 0),
      point_plane_distance_gradient = (\<lambda>p origin normal. []),
      point_plane_distance_hessian = (\<lambda>p origin normal. []),
      NDEBUG = False\<rparr>"

definition example_V :: "vec list" where
  "example_V = [[0, 0], [1, 0], [0, 1], [1, 2]]"

definition example_E :: "int list list" where
  "example_E = [[0, 1], [2, 3]]"

definition example_vv :: "long \<Rightarrow> VertexVertexConstraint" where
  "example_vv m =
     \<lparr>minimum_distance = 0, vertex0_index = 0, vertex1_index = 1, multiplicity = m\<rparr>"

definition example_ev :: "long \<Rightarrow> EdgeVertexConstraint" where
  "example_ev m =
     \<lparr>minimum_distance = 0, edge_index = 0, vertex_index = 2, multiplicity = m\<rparr>"

definition example_ee :: EdgeEdgeConstraint where
  "example_ee = \<lparr>minimum_distance = 1 / 2, edge0_index = 0, edge1_index = 1, eps_x = 1\<rparr>"

definition example_pv :: PlaneVertexConstraint where
  "example_pv =
     \<lparr>minimum_distance = 0, plane_origin = [0, 0], plane_normal = [0, 1], vertex_index = 3\<rparr>"

definition example_set :: Constraints where
  "example_set =
     \<lparr>vv_constraints = [example_vv 3], ev_constraints = [example_ev 1],
      ee_constraints = [example_ee], fv_constraints = [], pv_constraints = [example_pv]\<rparr>"

definition unit_set :: Constraints where
  "unit_set =
     \<lparr>vv_constraints = [example_vv 1], ev_constraints = [example_ev 1],
      ee_constraints = [example_ee], fv_constraints = [], pv_constraints = []\<rparr>"

definition wrapping_set :: Constraints where
  "wrapping_set =
     \<lparr>vv_constraints =
        [example_vv 9223372036854775807, example_vv 9223372036854775807, example_vv 2],
      ev_constraints = [], ee_constraints = [], fv_constraints = [], pv_constraints = []\<rparr>"


section \<open>Entries of the Eigen expressions\<close>

text \<open>
  A vector of size \<open>n\<close> is the list of its entries, a square matrix the list of the
  lists of its entries, and each Eigen expression acts entry by entry.
\<close>

lemma vector_of_nth: "length v = n \<Longrightarrow> vector_of n (\<lambda>i. v ! i) = v"
  by (auto simp add: vector_of_def intro: nth_equalityI)

lemma matrix_of_nth: "square n M \<Longrightarrow> matrix_of n (\<lambda>i j. M ! i ! j) = M"
  by (auto simp add: matrix_of_def square_def list_all_length intro!: nth_equalityI)

lemma map2_same: "map2 f (map g xs) (map h xs) = map (\<lambda>x. f (g x) (h x)) xs"
  by (induction xs) simp_all

lemma scalar_times_vector_of:
  "scalar_times_vec a (vector_of n f) = vector_of n (\<lambda>i. a * f i)"
  by (simp add: scalar_times_vec_def vector_of_def)

lemma vector_of_times_scalar:
  "vec_times_scalar (vector_of n f) a = vector_of n (\<lambda>i. f i * a)"
  by (simp add: vec_times_scalar_def vector_of_def)

lemma vector_of_plus:
  "vec_plus (vector_of n f) (vector_of n g) = vector_of n (\<lambda>i. f i + g i)"
  by (simp add: vec_plus_def vector_of_def map2_same)

lemma outer_vector_of:
  "outer (vector_of n f) (vector_of n g) = matrix_of n (\<lambda>i j. f i * g j)"
  by (simp add: outer_def vector_of_def matrix_of_def)

lemma scalar_times_matrix_of:
  "scalar_times_mat a (matrix_of n f) = matrix_of n (\<lambda>i j. a * f i j)"
  by (simp add: scalar_times_mat_def matrix_of_def)

lemma matrix_of_times_scalar:
  "mat_times_scalar (matrix_of n f) a = matrix_of n (\<lambda>i j. f i j * a)"
  by (simp add: mat_times_scalar_def matrix_of_def)

lemma matrix_of_plus:
  "mat_plus (matrix_of n f) (matrix_of n g) = matrix_of n (\<lambda>i j. f i j + g i j)"
  by (simp add: mat_plus_def matrix_of_def map2_same)

lemmas entrywise = scalar_times_vector_of vector_of_times_scalar vector_of_plus outer_vector_of
  scalar_times_matrix_of matrix_of_times_scalar matrix_of_plus

lemma matrix_of_row: "i < n \<Longrightarrow> matrix_of n f ! i = map (f i) [0..<n]"
  by (simp add: matrix_of_def)

lemma square_matrix_of: "square n (matrix_of n f)"
  by (simp add: square_def matrix_of_def list_all_iff)

lemma upt_numeral_expand: "[0..<numeral k] = (let n = pred_numeral k in [0..<n] @ [n])"
  by (simp add: Let_def numeral_eq_Suc)

subsection \<open>The concrete collaborators\<close>

lemma example_stencil:
  "[0, 0] = row example_V (coeff example_E (sint (edge0_index example_ee)) 0)"
  "[1, 0] = row example_V (coeff example_E (sint (edge0_index example_ee)) 1)"
  "[0, 1] = row example_V (coeff example_E (sint (edge1_index example_ee)) 0)"
  "[1, 2] = row example_V (coeff example_E (sint (edge1_index example_ee)) 1)"
  by (simp_all add: example_V_def example_E_def example_ee_def row_def coeff_def)

lemma example_sizes:
  "length (edge_edge_distance_gradient example_externals [0, 0] [1, 0] [0, 1] [1, 2] t) = 8"
  "length (edge_edge_mollifier_gradient example_externals [0, 0] [1, 0] [0, 1] [1, 2] e) = 8"
  "square 8 (edge_edge_distance_hessian example_externals [0, 0] [1, 0] [0, 1] [1, 2] t)"
  "square 8 (edge_edge_mollifier_hessian example_externals [0, 0] [1, 0] [0, 1] [1, 2] e)"
  by (simp_all add: example_externals_def square_matrix_of)

lemmas example_simps = example_externals_def example_barrier_def example_barrier_gradient_def
  example_barrier_hessian_def example_ee_def vector_of_def matrix_of_row upt_numeral_expand
  power2_eq_square power3_eq_cube

section \<open>The barrier compositions\<close>

text \<open>
  Claim C1, as amended. \<open>compute_potential_common\<close> evaluates the barrier at the
  distance it is given less the square of the minimum distance, with the activation
  threshold \<open>2 * minimum_distance * dhat + dhat\<^sup>2\<close>. The argument is used as it is
  passed and is never squared: the formula of the specification, which has \<open>d\<^sup>2\<close>,
  is the value for a caller that passes the squared distance \<open>d\<^sup>2\<close>.
\<close>

theorem potential_common_uses_distance_as_passed:
  "compute_potential_common ext c x dhat =
     barrier ext (x - (minimum_distance c)\<^sup>2) (2 * minimum_distance c * dhat + dhat\<^sup>2)
   \<and> compute_potential_common ext c (d\<^sup>2) dhat =
     barrier ext (d\<^sup>2 - (minimum_distance c)\<^sup>2) (2 * minimum_distance c * dhat + dhat\<^sup>2)"
  by (simp add: compute_potential_common_def power2_eq_square)

text \<open>
  Claim C1 as stated fails: given the distance \<open>2\<close>, with no minimum distance and
  \<open>dhat = 3\<close>, the code evaluates the barrier at \<open>2\<close>, not at \<open>2\<^sup>2\<close>.
\<close>

theorem potential_common_squares_counterexample:
  "compute_potential_common example_externals \<lparr>minimum_distance = 0\<rparr> 2 3
     \<noteq> barrier example_externals (2\<^sup>2 - 0\<^sup>2) (2 * 0 * 3 + 3\<^sup>2)"
  by (simp add: compute_potential_common_def example_externals_def example_barrier_def)

lemma hessian_common_entries:
  assumes n: "length dg = n" "square n dh"
    and g: "grad_b = barrier_gradient ext (d - minimum_distance c * minimum_distance c)
              (2 * minimum_distance c * dhat + dhat * dhat)"
    and h: "hess_b = barrier_hessian ext (d - minimum_distance c * minimum_distance c)
              (2 * minimum_distance c * dhat + dhat * dhat)"
  shows "compute_potential_hessian_common ext c d dg dh dhat False =
           (if \<not> NDEBUG ext \<and> hess_b < 0 then Inl (assertion_failed ''hess_b >= 0'')
            else Inr (matrix_of n (\<lambda>i j. hess_b * dg ! i * dg ! j + grad_b * dh ! i ! j)))"
    and "compute_potential_hessian_common ext c d dg dh dhat True =
           (if \<not> NDEBUG ext \<and> hess_b < 0 then Inl (assertion_failed ''hess_b >= 0'')
            else Inr (mat_plus (matrix_of n (\<lambda>i j. hess_b * dg ! i * dg ! j))
                   (project_to_psd ext (matrix_of n (\<lambda>i j. grad_b * dh ! i ! j)))))"
proof -
  have dg: "dg = vector_of n (\<lambda>i. dg ! i)"
    using n(1) by (simp add: vector_of_nth)
  have dh: "dh = matrix_of n (\<lambda>i j. dh ! i ! j)"
    using n(2) by (simp add: matrix_of_nth)
  have o: "outer (scalar_times_vec hess_b dg) dg = matrix_of n (\<lambda>i j. hess_b * dg ! i * dg ! j)"
    by (subst (1 2) dg) (simp only: entrywise)
  have s: "scalar_times_mat grad_b dh = matrix_of n (\<lambda>i j. grad_b * dh ! i ! j)"
    by (subst dh) (simp only: entrywise)
  show "compute_potential_hessian_common ext c d dg dh dhat False =
           (if \<not> NDEBUG ext \<and> hess_b < 0 then Inl (assertion_failed ''hess_b >= 0'')
            else Inr (matrix_of n (\<lambda>i j. hess_b * dg ! i * dg ! j + grad_b * dh ! i ! j)))"
    unfolding compute_potential_hessian_common_def Let_def g [symmetric] h [symmetric]
    by (simp add: o s matrix_of_plus not_le)
  show "compute_potential_hessian_common ext c d dg dh dhat True =
           (if \<not> NDEBUG ext \<and> hess_b < 0 then Inl (assertion_failed ''hess_b >= 0'')
            else Inr (mat_plus (matrix_of n (\<lambda>i j. hess_b * dg ! i * dg ! j))
                   (project_to_psd ext (matrix_of n (\<lambda>i j. grad_b * dh ! i ! j)))))"
    unfolding compute_potential_hessian_common_def Let_def g [symmetric] h [symmetric]
    by (simp add: o s not_le)
qed

text \<open>
  Claim C4. For a distance gradient of size \<open>n\<close> and a distance Hessian of size
  \<open>n \<times> n\<close>, \<open>compute_potential_hessian_common\<close> returns the matrix with the entries
  \<open>hess_b * dg\<^sub>i * dg\<^sub>j + grad_b * dh\<^sub>i\<^sub>j\<close>; when the projection is asked for, it
  is applied to the matrix of the \<open>grad_b * dh\<^sub>i\<^sub>j\<close> alone, and the matrix of the
  \<open>hess_b * dg\<^sub>i * dg\<^sub>j\<close> is added to the projection unprojected. Where assertions are
  compiled in, a negative \<open>hess_b\<close> stops the call instead. The Hessians of the four
  variants without a mollifier are this composition of the variant's distance, gradient
  and Hessian, times the multiplicity for vertex-vertex and edge-vertex.
\<close>

theorem unmollified_hessian_composition:
  assumes "length dg = n" and "square n dh"
    and "grad_b = barrier_gradient ext (d - (minimum_distance c)\<^sup>2)
               (2 * minimum_distance c * dhat + dhat\<^sup>2)"
    and "hess_b = barrier_hessian ext (d - (minimum_distance c)\<^sup>2)
               (2 * minimum_distance c * dhat + dhat\<^sup>2)"
  shows "compute_potential_hessian_common ext c d dg dh dhat False =
           (if \<not> NDEBUG ext \<and> hess_b < 0 then Inl (assertion_failed ''hess_b >= 0'')
            else Inr (matrix_of n (\<lambda>i j. hess_b * dg ! i * dg ! j + grad_b * dh ! i ! j)))
       \<and> compute_potential_hessian_common ext c d dg dh dhat True =
           (if \<not> NDEBUG ext \<and> hess_b < 0 then Inl (assertion_failed ''hess_b >= 0'')
            else Inr (mat_plus (matrix_of n (\<lambda>i j. hess_b * dg ! i * dg ! j))
                   (project_to_psd ext (matrix_of n (\<lambda>i j. grad_b * dh ! i ! j)))))
       \<and> VertexVertexConstraint_compute_potential_hessian ext vv V E F h psd =
           long_times_result (VertexVertexConstraint.multiplicity vv)
             (compute_potential_hessian_common ext vv
                (point_point_distance ext
                   (row V (sint (vertex0_index vv))) (row V (sint (vertex1_index vv))))
                (point_point_distance_gradient ext
                   (row V (sint (vertex0_index vv))) (row V (sint (vertex1_index vv))))
                (point_point_distance_hessian ext
                   (row V (sint (vertex0_index vv))) (row V (sint (vertex1_index vv))))
                h psd)
       \<and> EdgeVertexConstraint_compute_potential_hessian ext ev V E F h psd =
           long_times_result (EdgeVertexConstraint.multiplicity ev)
             (compute_potential_hessian_common ext ev
                (point_edge_distance ext
                   (row V (sint (EdgeVertexConstraint.vertex_index ev)))
                   (row V (coeff E (sint (edge_index ev)) 0))
                   (row V (coeff E (sint (edge_index ev)) 1)) P_E)
                (point_edge_distance_gradient ext
                   (row V (sint (EdgeVertexConstraint.vertex_index ev)))
                   (row V (coeff E (sint (edge_index ev)) 0))
                   (row V (coeff E (sint (edge_index ev)) 1)) P_E)
                (point_edge_distance_hessian ext
                   (row V (sint (EdgeVertexConstraint.vertex_index ev)))
                   (row V (coeff E (sint (edge_index ev)) 0))
                   (row V (coeff E (sint (edge_index ev)) 1)) P_E)
                h psd)
       \<and> FaceVertexConstraint_compute_potential_hessian ext fv V E F h psd =
           compute_potential_hessian_common ext fv
             (point_triangle_distance ext
                (row V (sint (FaceVertexConstraint.vertex_index fv)))
                (row V (coeff F (sint (face_index fv)) 0))
                (row V (coeff F (sint (face_index fv)) 1))
                (row V (coeff F (sint (face_index fv)) 2)) P_T)
             (point_triangle_distance_gradient ext
                (row V (sint (FaceVertexConstraint.vertex_index fv)))
                (row V (coeff F (sint (face_index fv)) 0))
                (row V (coeff F (sint (face_index fv)) 1))
                (row V (coeff F (sint (face_index fv)) 2)) P_T)
             (point_triangle_distance_hessian ext
                (row V (sint (FaceVertexConstraint.vertex_index fv)))
                (row V (coeff F (sint (face_index fv)) 0))
                (row V (coeff F (sint (face_index fv)) 1))
                (row V (coeff F (sint (face_index fv)) 2)) P_T)
             h psd
       \<and> PlaneVertexConstraint_compute_potential_hessian ext pv V E F h psd =
           compute_potential_hessian_common ext pv
             (point_plane_distance ext
                (row V (sint (PlaneVertexConstraint.vertex_index pv)))
                (plane_origin pv) (plane_normal pv))
             (point_plane_distance_gradient ext
                (row V (sint (PlaneVertexConstraint.vertex_index pv)))
                (plane_origin pv) (plane_normal pv))
             (point_plane_distance_hessian ext
                (row V (sint (PlaneVertexConstraint.vertex_index pv)))
                (plane_origin pv) (plane_normal pv))
             h psd"
proof -
  have g: "grad_b = barrier_gradient ext (d - minimum_distance c * minimum_distance c)
              (2 * minimum_distance c * dhat + dhat * dhat)"
    and h: "hess_b = barrier_hessian ext (d - minimum_distance c * minimum_distance c)
              (2 * minimum_distance c * dhat + dhat * dhat)"
    using assms(3,4) by (simp_all add: power2_eq_square)
  show ?thesis
    using hessian_common_entries [OF assms(1,2) g h]
    by (simp add: VertexVertexConstraint_compute_potential_hessian_def
        EdgeVertexConstraint_compute_potential_hessian_def
        FaceVertexConstraint_compute_potential_hessian_def
        PlaneVertexConstraint_compute_potential_hessian_def Let_def)
qed

text \<open>
  The composition for the squared distance of the points \<open>1\<close> and \<open>0\<close> of the line,
  with \<open>dhat = 2\<close>: \<open>grad_b = - 54\<close> and \<open>hess_b = 126\<close>.
\<close>

theorem unmollified_hessian_composition_witness:
  "length [2, - 2 :: real] = 2 \<and> square 2 [[2, - 2], [- 2, 2]]
   \<and> compute_potential_hessian_common example_externals \<lparr>minimum_distance = 0\<rparr>
        1 [2, - 2] [[2, - 2], [- 2, 2]] 2 False
      = Inr [[396, - 396], [- 396, 396]]
   \<and> compute_potential_hessian_common example_externals \<lparr>minimum_distance = 0\<rparr>
        1 [2, - 2] [[2, - 2], [- 2, 2]] 2 True
      = Inr [[504, - 396], [- 396, 504]]"
proof -
  have n: "length [2, - 2 :: real] = 2" and q: "square 2 [[2, - 2], [- 2, 2 :: real]]"
    by (simp_all add: square_def)
  show ?thesis
    using unmollified_hessian_composition [where ext = example_externals and d = 1
        and c = "\<lparr>minimum_distance = 0\<rparr>" and dhat = 2, OF n q refl refl]
    by (simp add: n q example_externals_def example_barrier_gradient_def
        example_barrier_hessian_def matrix_of_def mat_plus_def upt_numeral_expand)
qed

text \<open>
  Claim C7. Each of the potential, its gradient and its Hessian of a vertex-vertex and
  of an edge-vertex constraint is the multiplicity times the composition of the barrier
  with the variant's distance function and its derivatives; on a Hessian the product
  multiplies every entry, and a composition stopped by its assertion stays stopped.
\<close>

theorem multiplicity_scales_potential:
  "VertexVertexConstraint_compute_potential ext vv V E F dhat =
     double_of_long (VertexVertexConstraint.multiplicity vv)
       * compute_potential_common ext vv
           (point_point_distance ext
              (row V (sint (vertex0_index vv))) (row V (sint (vertex1_index vv)))) dhat
   \<and> VertexVertexConstraint_compute_potential_gradient ext vv V E F dhat =
     scalar_times_vec (double_of_long (VertexVertexConstraint.multiplicity vv))
       (compute_potential_gradient_common ext vv
          (point_point_distance ext
             (row V (sint (vertex0_index vv))) (row V (sint (vertex1_index vv))))
          (point_point_distance_gradient ext
             (row V (sint (vertex0_index vv))) (row V (sint (vertex1_index vv)))) dhat)
   \<and> VertexVertexConstraint_compute_potential_hessian ext vv V E F dhat psd =
     long_times_result (VertexVertexConstraint.multiplicity vv)
       (compute_potential_hessian_common ext vv
          (point_point_distance ext
             (row V (sint (vertex0_index vv))) (row V (sint (vertex1_index vv))))
          (point_point_distance_gradient ext
             (row V (sint (vertex0_index vv))) (row V (sint (vertex1_index vv))))
          (point_point_distance_hessian ext
             (row V (sint (vertex0_index vv))) (row V (sint (vertex1_index vv))))
          dhat psd)
   \<and> EdgeVertexConstraint_compute_potential ext ev V E F dhat =
     double_of_long (EdgeVertexConstraint.multiplicity ev)
       * compute_potential_common ext ev
           (point_edge_distance ext
              (row V (sint (EdgeVertexConstraint.vertex_index ev)))
              (row V (coeff E (sint (edge_index ev)) 0))
              (row V (coeff E (sint (edge_index ev)) 1)) P_E) dhat
   \<and> EdgeVertexConstraint_compute_potential_gradient ext ev V E F dhat =
     scalar_times_vec (double_of_long (EdgeVertexConstraint.multiplicity ev))
       (compute_potential_gradient_common ext ev
          (point_edge_distance ext
             (row V (sint (EdgeVertexConstraint.vertex_index ev)))
             (row V (coeff E (sint (edge_index ev)) 0))
             (row V (coeff E (sint (edge_index ev)) 1)) P_E)
          (point_edge_distance_gradient ext
             (row V (sint (EdgeVertexConstraint.vertex_index ev)))
             (row V (coeff E (sint (edge_index ev)) 0))
             (row V (coeff E (sint (edge_index ev)) 1)) P_E) dhat)
   \<and> EdgeVertexConstraint_compute_potential_hessian ext ev V E F dhat psd =
     long_times_result (EdgeVertexConstraint.multiplicity ev)
       (compute_potential_hessian_common ext ev
          (point_edge_distance ext
             (row V (sint (EdgeVertexConstraint.vertex_index ev)))
             (row V (coeff E (sint (edge_index ev)) 0))
             (row V (coeff E (sint (edge_index ev)) 1)) P_E)
          (point_edge_distance_gradient ext
             (row V (sint (EdgeVertexConstraint.vertex_index ev)))
             (row V (coeff E (sint (edge_index ev)) 0))
             (row V (coeff E (sint (edge_index ev)) 1)) P_E)
          (point_edge_distance_hessian ext
             (row V (sint (EdgeVertexConstraint.vertex_index ev)))
             (row V (coeff E (sint (edge_index ev)) 0))
             (row V (coeff E (sint (edge_index ev)) 1)) P_E)
          dhat psd)
   \<and> long_times_result m (Inr H) = Inr (map (map (\<lambda>x. double_of_long m * x)) H)
   \<and> long_times_result m (Inl e) = Inl e"
  by (simp add: VertexVertexConstraint_compute_potential_def
      VertexVertexConstraint_compute_potential_gradient_def
      VertexVertexConstraint_compute_potential_hessian_def
      EdgeVertexConstraint_compute_potential_def
      EdgeVertexConstraint_compute_potential_gradient_def
      EdgeVertexConstraint_compute_potential_hessian_def
      long_times_result_def scalar_times_mat_def Let_def)

text \<open>
  A vertex-vertex constraint of multiplicity \<open>3\<close> between the points \<open>(0, 0)\<close> and
  \<open>(1, 0)\<close>, with \<open>dhat = 2\<close>: the barrier is \<open>27\<close> and the potential \<open>81\<close>.
\<close>

theorem multiplicity_scales_potential_witness:
  "VertexVertexConstraint_compute_potential example_externals (example_vv 3) example_V
     example_E [] 2 = 81
   \<and> VertexVertexConstraint_compute_potential_gradient example_externals (example_vv 3)
       example_V example_E [] 2 = [324, 0, - 324, 0]
   \<and> VertexVertexConstraint_compute_potential_hessian example_externals (example_vv 3)
       example_V example_E [] 2 False
     = Inr [[1188, 0, - 1188, 0], [0, - 324, 0, 324], [- 1188, 0, 1188, 0], [0, 324, 0, - 324]]"
proof -
  note r = multiplicity_scales_potential [where ext = example_externals and vv = "example_vv 3"
      and V = example_V and E = example_E and F = "[]" and dhat = 2 and psd = False]
  have p: "row example_V (sint (vertex0_index (example_vv 3))) = [0, 0]"
    "row example_V (sint (vertex1_index (example_vv 3))) = [1, 0]"
    by (simp_all add: example_V_def example_vv_def row_def)
  have m: "double_of_long (VertexVertexConstraint.multiplicity (example_vv 3)) = 3"
    by (simp add: example_vv_def double_of_long_def)
  have c: "compute_potential_common example_externals (example_vv 3) 1 2 = 27"
    by (simp add: compute_potential_common_def example_externals_def example_barrier_def
        example_vv_def)
  have g: "compute_potential_gradient_common example_externals (example_vv 3) 1 [- 2, 0, 2, 0] 2
      = [108, 0, - 108, 0]"
    by (simp add: compute_potential_gradient_common_def example_externals_def
        example_barrier_gradient_def example_vv_def scalar_times_vec_def)
  have h: "compute_potential_hessian_common example_externals (example_vv 3) 1 [- 2, 0, 2, 0]
        [[2, 0, - 2, 0], [0, 2, 0, - 2], [- 2, 0, 2, 0], [0, - 2, 0, 2]] 2 False
      = Inr [[396, 0, - 396, 0], [0, - 108, 0, 108], [- 396, 0, 396, 0], [0, 108, 0, - 108]]"
    by (simp add: compute_potential_hessian_common_def example_externals_def
        example_barrier_gradient_def example_barrier_hessian_def example_vv_def
        scalar_times_vec_def scalar_times_mat_def outer_def mat_plus_def)
  have d: "point_point_distance example_externals [0, 0] [1, 0] = 1"
    "point_point_distance_gradient example_externals [0, 0] [1, 0] = [- 2, 0, 2, 0]"
    "point_point_distance_hessian example_externals [0, 0] [1, 0]
      = [[2, 0, - 2, 0], [0, 2, 0, - 2], [- 2, 0, 2, 0], [0, - 2, 0, 2]]"
    by (simp_all add: example_externals_def matrix_of_def upt_numeral_expand)
  show ?thesis
    using r by (simp add: p m c g h d long_times_result_def scalar_times_vec_def
        scalar_times_mat_def)
qed

section \<open>The mollified edge-edge constraint\<close>

text \<open>
  Claim C3. With the distance type taken from the classifier at the four current end
  points, and the distance \<open>d\<close> and its gradient \<open>dg\<close> computed for that type, the
  gradient of the edge-edge potential has the entries \<open>mg\<^sub>i * b + m * (grad_b * dg\<^sub>i)\<close>,
  where \<open>m\<close> and \<open>mg\<close> are the mollifier and its gradient and \<open>b\<close> and \<open>grad_b\<close> the
  barrier and its derivative at \<open>d\<close>: both terms of the product rule.
\<close>

theorem EdgeEdge_gradient_product_rule:
  assumes "ea0 = row V (coeff E (sint (edge0_index c)) 0)"
    and "ea1 = row V (coeff E (sint (edge0_index c)) 1)"
    and "eb0 = row V (coeff E (sint (edge1_index c)) 0)"
    and "eb1 = row V (coeff E (sint (edge1_index c)) 1)"
    and "dtype = edge_edge_distance_type ext ea0 ea1 eb0 eb1"
    and "d = edge_edge_distance ext ea0 ea1 eb0 eb1 dtype"
    and "dg = edge_edge_distance_gradient ext ea0 ea1 eb0 eb1 dtype"
    and "m = edge_edge_mollifier ext ea0 ea1 eb0 eb1 (eps_x c)"
    and "mg = edge_edge_mollifier_gradient ext ea0 ea1 eb0 eb1 (eps_x c)"
    and "b = barrier ext (d - (minimum_distance c)\<^sup>2)
               (2 * minimum_distance c * dhat + dhat\<^sup>2)"
    and "grad_b = barrier_gradient ext (d - (minimum_distance c)\<^sup>2)
               (2 * minimum_distance c * dhat + dhat\<^sup>2)"
    and "length dg = n" and "length mg = n"
  shows "EdgeEdgeConstraint_compute_potential_gradient ext c V E F dhat =
           vector_of n (\<lambda>i. mg ! i * b + m * (grad_b * dg ! i))"
proof -
  have dg: "dg = vector_of n (\<lambda>i. dg ! i)" and mg: "mg = vector_of n (\<lambda>i. mg ! i)"
    using assms(12,13) by (simp_all add: vector_of_nth)
  have "vec_plus (vec_times_scalar mg b) (scalar_times_vec m (scalar_times_vec grad_b dg))
      = vector_of n (\<lambda>i. mg ! i * b + m * (grad_b * dg ! i))"
    by (subst dg, subst mg) (simp only: entrywise)
  then show ?thesis
    unfolding EdgeEdgeConstraint_compute_potential_gradient_def
      compute_potential_gradient_common_def Let_def
    using assms(1-11) by (simp add: power2_eq_square)
qed

text \<open>
  The gradient for the two segments of the concrete mesh, with \<open>dhat = 1\<close> and the
  minimum distance \<open>1 / 2\<close>: \<open>b = 125 / 48\<close> and \<open>grad_b = - (175 / 18)\<close>.
\<close>

theorem EdgeEdge_gradient_product_rule_witness:
  "length (edge_edge_distance_gradient example_externals [0, 0] [1, 0] [0, 1] [1, 2] 0) = 8
   \<and> length (edge_edge_mollifier_gradient example_externals [0, 0] [1, 0] [0, 1] [1, 2] 1) = 8
   \<and> EdgeEdgeConstraint_compute_potential_gradient example_externals example_ee example_V
        example_E [] 1
      = [0, 175 / 9, 125 / 48, 125 / 48, 0, - (175 / 9), 0, 0]"
proof -
  note r = EdgeEdge_gradient_product_rule [where ext = example_externals and c = example_ee
      and V = example_V and E = example_E and F = "[]" and dhat = 1 and n = 8,
      OF example_stencil refl refl refl refl refl refl refl example_sizes(1,2)]
  show ?thesis
    unfolding r by (simp add: example_simps)
qed

text \<open>
  Claim C2. The Hessian of the edge-edge potential has the entries
  \<open>mh\<^sub>i\<^sub>j * b + grad_b * (dg\<^sub>i * mg\<^sub>j + mg\<^sub>i * dg\<^sub>j)
    + m * (hess_b * dg\<^sub>i * dg\<^sub>j + grad_b * dh\<^sub>i\<^sub>j)\<close>,
  and when the projection is asked for the result is the projection of that whole
  matrix.
\<close>

theorem EdgeEdge_hessian_product_rule:
  assumes "ea0 = row V (coeff E (sint (edge0_index c)) 0)"
    and "ea1 = row V (coeff E (sint (edge0_index c)) 1)"
    and "eb0 = row V (coeff E (sint (edge1_index c)) 0)"
    and "eb1 = row V (coeff E (sint (edge1_index c)) 1)"
    and "dtype = edge_edge_distance_type ext ea0 ea1 eb0 eb1"
    and "d = edge_edge_distance ext ea0 ea1 eb0 eb1 dtype"
    and "dg = edge_edge_distance_gradient ext ea0 ea1 eb0 eb1 dtype"
    and "dh = edge_edge_distance_hessian ext ea0 ea1 eb0 eb1 dtype"
    and "m = edge_edge_mollifier ext ea0 ea1 eb0 eb1 (eps_x c)"
    and "mg = edge_edge_mollifier_gradient ext ea0 ea1 eb0 eb1 (eps_x c)"
    and "mh = edge_edge_mollifier_hessian ext ea0 ea1 eb0 eb1 (eps_x c)"
    and "b = barrier ext (d - (minimum_distance c)\<^sup>2)
               (2 * minimum_distance c * dhat + dhat\<^sup>2)"
    and "grad_b = barrier_gradient ext (d - (minimum_distance c)\<^sup>2)
               (2 * minimum_distance c * dhat + dhat\<^sup>2)"
    and "hess_b = barrier_hessian ext (d - (minimum_distance c)\<^sup>2)
               (2 * minimum_distance c * dhat + dhat\<^sup>2)"
    and "length dg = n" and "length mg = n" and "square n dh" and "square n mh"
  shows "EdgeEdgeConstraint_compute_potential_hessian ext c V E F dhat False =
           matrix_of n (\<lambda>i j. mh ! i ! j * b
              + grad_b * (dg ! i * mg ! j + mg ! i * dg ! j)
              + m * (hess_b * dg ! i * dg ! j + grad_b * dh ! i ! j))
       \<and> EdgeEdgeConstraint_compute_potential_hessian ext c V E F dhat True =
           project_to_psd ext (matrix_of n (\<lambda>i j. mh ! i ! j * b
              + grad_b * (dg ! i * mg ! j + mg ! i * dg ! j)
              + m * (hess_b * dg ! i * dg ! j + grad_b * dh ! i ! j)))"
proof -
  have "mat_plus
          (mat_plus (mat_times_scalar (matrix_of n (\<lambda>i j. mh ! i ! j)) b)
             (scalar_times_mat grad_b
                (mat_plus (outer (vector_of n (\<lambda>i. dg ! i)) (vector_of n (\<lambda>i. mg ! i)))
                   (outer (vector_of n (\<lambda>i. mg ! i)) (vector_of n (\<lambda>i. dg ! i))))))
          (scalar_times_mat m
             (mat_plus
                (outer (scalar_times_vec hess_b (vector_of n (\<lambda>i. dg ! i)))
                   (vector_of n (\<lambda>i. dg ! i)))
                (scalar_times_mat grad_b (matrix_of n (\<lambda>i j. dh ! i ! j)))))
      = matrix_of n (\<lambda>i j. mh ! i ! j * b
              + grad_b * (dg ! i * mg ! j + mg ! i * dg ! j)
              + m * (hess_b * dg ! i * dg ! j + grad_b * dh ! i ! j))"
    by (simp only: entrywise)
  then have "mat_plus
          (mat_plus (mat_times_scalar mh b)
             (scalar_times_mat grad_b (mat_plus (outer dg mg) (outer mg dg))))
          (scalar_times_mat m
             (mat_plus (outer (scalar_times_vec hess_b dg) dg) (scalar_times_mat grad_b dh)))
      = matrix_of n (\<lambda>i j. mh ! i ! j * b
              + grad_b * (dg ! i * mg ! j + mg ! i * dg ! j)
              + m * (hess_b * dg ! i * dg ! j + grad_b * dh ! i ! j))"
    by (simp only: vector_of_nth [OF assms(15)] vector_of_nth [OF assms(16)]
        matrix_of_nth [OF assms(17)] matrix_of_nth [OF assms(18)])
  then show ?thesis
    unfolding EdgeEdgeConstraint_compute_potential_hessian_def Let_def
    using assms(1-14) by (simp add: power2_eq_square)
qed

text \<open>
  The second row of the Hessian for the two segments of the concrete mesh, without and
  with the projection.
\<close>

theorem EdgeEdge_hessian_product_rule_witness:
  "length (edge_edge_distance_gradient example_externals [0, 0] [1, 0] [0, 1] [1, 2] 0) = 8
   \<and> length (edge_edge_mollifier_gradient example_externals [0, 0] [1, 0] [0, 1] [1, 2] 1) = 8
   \<and> square 8 (edge_edge_distance_hessian example_externals [0, 0] [1, 0] [0, 1] [1, 2] 0)
   \<and> square 8 (edge_edge_mollifier_hessian example_externals [0, 0] [1, 0] [0, 1] [1, 2] 1)
   \<and> EdgeEdgeConstraint_compute_potential_hessian example_externals example_ee example_V
        example_E [] 1 False ! 1
      = [0, 3355 / 27, 175 / 9, 175 / 9, 0, - (3355 / 27), 0, 0]
   \<and> EdgeEdgeConstraint_compute_potential_hessian example_externals example_ee example_V
        example_E [] 1 True ! 1
      = [0, 3355 / 27, 175 / 9, 175 / 9, 0, 0, 0, 0]"
proof -
  note r = EdgeEdge_hessian_product_rule [where ext = example_externals and c = example_ee
      and V = example_V and E = example_E and F = "[]" and dhat = 1 and n = 8,
      OF example_stencil refl refl refl refl refl refl refl refl refl refl example_sizes]
  have p: "project_to_psd example_externals (matrix_of 8 f) ! 1 = map (max 0) (map (f 1) [0..<8])"
    for f
    by (simp add: example_externals_def matrix_of_def)
  show ?thesis
    unfolding r [THEN conjunct1] r [THEN conjunct2] p
    by (simp add: square_matrix_of example_simps)
qed

section \<open>Counting and indexing the constraint set\<close>

lemma unat_vector_size: "length xs < 2 ^ 64 \<Longrightarrow> unat (vector_size xs) = length xs"
  by (simp add: vector_size_def unat_of_nat)

lemma uint_nonneg_long:
  assumes "0 \<le> sint (m::long)"
  shows "uint m = sint m"
proof -
  have lt: "sint m < 2 ^ 64"
    using sint_less [of m] by simp
  have "uint (word_of_int (sint m) :: long) = take_bit LENGTH(64) (sint m)"
    by (rule uint_word_of_int_eq)
  then have "uint m = take_bit 64 (sint m)"
    by simp
  also have "\<dots> = sint m"
    using assms lt by (simp add: take_bit_int_eq_self)
  finally show ?thesis .
qed

lemma sint_eq_one_long: "(sint (m::long) = 1) = (m = 1)"
proof
  assume "sint m = 1"
  then have "(word_of_int (sint m) :: long) = word_of_int 1"
    by (rule arg_cong)
  then show "m = 1"
    by simp
next
  assume "m = 1"
  then show "sint m = 1"
    by simp
qed

lemma fold_add_vv:
  "fold (\<lambda>c n. n + size_t_of_long (VertexVertexConstraint.multiplicity c)) xs a
   = a + word_of_int (sum_list (map (\<lambda>c. sint (VertexVertexConstraint.multiplicity c)) xs))"
  by (induction xs arbitrary: a) (simp_all add: size_t_of_long_def)

lemma fold_add_ev:
  "fold (\<lambda>c n. n + size_t_of_long (EdgeVertexConstraint.multiplicity c)) xs a
   = a + word_of_int (sum_list (map (\<lambda>c. sint (EdgeVertexConstraint.multiplicity c)) xs))"
  by (induction xs arbitrary: a) (simp_all add: size_t_of_long_def)

lemma num_constraints_word_of_int:
  "Constraints_num_constraints cs = word_of_int (multiplicity_total cs)"
  by (simp add: Constraints_num_constraints_def multiplicity_total_def fold_add_vv fold_add_ev
      vector_size_def)

lemma size_word_of_nat:
  "Constraints_size cs = of_nat (instance_count cs)"
  by (simp add: Constraints_size_def instance_count_def vector_size_def)

lemma unat_Constraints_size:
  "addressable cs \<Longrightarrow> unat (Constraints_size cs) = instance_count cs"
  unfolding size_word_of_nat addressable_def by (simp add: unat_of_nat)

lemma less_Constraints_size:
  assumes "addressable cs"
  shows "(idx < Constraints_size cs) = (unat idx < instance_count cs)"
  using assms
  by (simp add: size_word_of_nat addressable_def word_less_nat_alt unat_of_nat)

lemma sum_list_ge_length:
  "list_all (\<lambda>c. 1 \<le> f c) xs \<Longrightarrow> int (length xs) \<le> sum_list (map f xs)"
  by (induction xs) auto

lemma sum_list_eq_length_iff:
  "list_all (\<lambda>c. 1 \<le> f c) xs \<Longrightarrow>
   (sum_list (map f xs) = int (length xs)) = list_all (\<lambda>c. f c = 1) xs"
proof (induction xs)
  case Nil
  then show ?case by simp
next
  case (Cons x xs)
  have "int (length xs) \<le> sum_list (map f xs)"
    using Cons.prems by (simp add: sum_list_ge_length)
  moreover have "1 \<le> f x" using Cons.prems by simp
  ultimately show ?case using Cons by auto
qed

lemma less_vector_size:
  "length xs < 2 ^ 64 \<Longrightarrow> (idx < vector_size xs) = (unat idx < length xs)"
  by (simp add: word_less_nat_alt unat_vector_size)

lemma unat_minus_vector_size:
  assumes "length xs < 2 ^ 64" and "length xs \<le> unat idx"
  shows "unat (idx - vector_size xs) = unat idx - length xs"
proof -
  have "vector_size xs \<le> idx"
    using assms by (simp add: word_le_nat_alt unat_vector_size)
  then have "unat (idx - vector_size xs) = unat idx - unat (vector_size xs)"
    by (rule unat_sub)
  then show ?thesis
    using assms(1) by (simp add: unat_vector_size)
qed

lemma lookup_stage:
  assumes len: "length xs < 2 ^ 64"
    and rest: "\<And>j. rest j = (if unat j < n then Inr (ys ! unat j) else Inl e)"
  shows "(if idx < vector_size xs then Inr (C (vector_at xs idx))
          else rest (idx - vector_size xs))
       = (if unat idx < length xs + n then Inr ((map C xs @ ys) ! unat idx) else Inl e)"
proof (cases "unat idx < length xs")
  case True
  then show ?thesis
    using len by (simp add: less_vector_size vector_at_def nth_append)
next
  case False
  then have "unat (idx - vector_size xs) = unat idx - length xs"
    using len by (simp add: unat_minus_vector_size)
  then show ?thesis
    using False len by (auto simp add: less_vector_size rest nth_append)
qed

lemma range_lookup_nat:
  assumes "addressable cs"
  shows "range_lookup cs idx =
     (if unat idx < instance_count cs then Inr (all_constraints cs ! unat idx)
      else Inl (out_of_range ''Constraint index is out of range!''))"
proof -
  let ?e = "out_of_range ''Constraint index is out of range!''"
  have l: "length (vv_constraints cs) < 2 ^ 64" "length (ev_constraints cs) < 2 ^ 64"
    "length (ee_constraints cs) < 2 ^ 64" "length (fv_constraints cs) < 2 ^ 64"
    "length (pv_constraints cs) < 2 ^ 64"
    using assms by (simp_all add: addressable_def instance_count_def)
  have r5: "\<And>j::size_t. Inl ?e = (if unat j < 0 then Inr ([] ! unat j) else Inl ?e)"
    by simp
  note s5 = lookup_stage [where C = PlaneVertex, OF l(5) r5]
  note s4 = lookup_stage [where C = FaceVertex, OF l(4) s5]
  note s3 = lookup_stage [where C = EdgeEdge, OF l(3) s4]
  note s2 = lookup_stage [where C = EdgeVertex, OF l(2) s3]
  note s1 = lookup_stage [where C = VertexVertex, OF l(1) s2]
  show ?thesis
    unfolding range_lookup_def Let_def all_constraints_def instance_count_def
    using s1 [of idx] by (simp add: add.assoc)
qed

lemmas example_set_simps = example_set_def unit_set_def wrapping_set_def example_vv_def
  example_ev_def example_ee_def example_pv_def

lemma addressable_example_set: "addressable example_set"
  by (simp add: addressable_def instance_count_def example_set_def)

text \<open>
  Claim C5, as amended. For a set whose vertex-vertex and edge-vertex multiplicities are
  at least one and whose multiplicities, with one for each edge-edge, face-vertex and
  plane-vertex instance, add up to less than \<open>2 ^ 64\<close>: \<open>size()\<close> is the sum of the five
  lengths, \<open>num_constraints()\<close> is that total, \<open>num_constraints()\<close> is at least
  \<open>size()\<close>, and the two are equal exactly when every multiplicity is one.
\<close>

theorem num_constraints_and_size:
  assumes pos: "multiplicities_positive cs" and fits: "multiplicity_total cs < 2 ^ 64"
  shows "unat (Constraints_size cs) = instance_count cs
       \<and> int (unat (Constraints_num_constraints cs)) = multiplicity_total cs
       \<and> Constraints_size cs \<le> Constraints_num_constraints cs
       \<and> (Constraints_num_constraints cs = Constraints_size cs) = multiplicities_one cs"
proof -
  let ?vv = "sum_list (map (\<lambda>c. sint (VertexVertexConstraint.multiplicity c)) (vv_constraints cs))"
  let ?ev = "sum_list (map (\<lambda>c. sint (EdgeVertexConstraint.multiplicity c)) (ev_constraints cs))"
  have vv: "int (length (vv_constraints cs)) \<le> ?vv"
    using pos by (simp add: multiplicities_positive_def sum_list_ge_length)
  have ev: "int (length (ev_constraints cs)) \<le> ?ev"
    using pos by (simp add: multiplicities_positive_def sum_list_ge_length)
  have le: "int (instance_count cs) \<le> multiplicity_total cs"
    using vv ev by (simp add: instance_count_def multiplicity_total_def)
  have "int (instance_count cs) < 2 ^ 64"
    using le fits by linarith
  then have ic: "addressable cs"
    by (simp add: addressable_def)
  have s: "unat (Constraints_size cs) = instance_count cs"
    using ic by (rule unat_Constraints_size)
  have "uint (word_of_int (multiplicity_total cs) :: size_t) = take_bit LENGTH(64) (multiplicity_total cs)"
    by (rule uint_word_of_int_eq)
  then have "uint (Constraints_num_constraints cs) = multiplicity_total cs"
    using le fits by (simp add: num_constraints_word_of_int take_bit_int_eq_self)
  then have n: "int (unat (Constraints_num_constraints cs)) = multiplicity_total cs"
    by simp
  have one: "(multiplicity_total cs = int (instance_count cs)) = multiplicities_one cs"
  proof -
    have "(multiplicity_total cs = int (instance_count cs))
        = (?vv = int (length (vv_constraints cs)) \<and> ?ev = int (length (ev_constraints cs)))"
      using vv ev by (auto simp add: instance_count_def multiplicity_total_def)
    also have "\<dots> = (list_all (\<lambda>c. sint (VertexVertexConstraint.multiplicity c) = 1) (vv_constraints cs)
        \<and> list_all (\<lambda>c. sint (EdgeVertexConstraint.multiplicity c) = 1) (ev_constraints cs))"
      using pos by (simp add: multiplicities_positive_def sum_list_eq_length_iff)
    also have "\<dots> = multiplicities_one cs"
      by (simp add: multiplicities_one_def sint_eq_one_long)
    finally show ?thesis .
  qed
  have "(Constraints_num_constraints cs = Constraints_size cs)
      = (unat (Constraints_num_constraints cs) = unat (Constraints_size cs))"
    by (simp add: word_unat_eq_iff)
  also have "\<dots> = (multiplicity_total cs = int (instance_count cs))"
    using n s by linarith
  finally have eq: "(Constraints_num_constraints cs = Constraints_size cs) = multiplicities_one cs"
    using one by simp
  have "unat (Constraints_size cs) \<le> unat (Constraints_num_constraints cs)"
    using n s le by linarith
  then have "Constraints_size cs \<le> Constraints_num_constraints cs"
    by (simp add: word_le_nat_alt)
  then show ?thesis
    using s n eq by simp
qed

text \<open>
  A set of four instances, one of multiplicity \<open>3\<close>: six constraints. A set of
  three instances of multiplicity one: three constraints.
\<close>

theorem num_constraints_and_size_witness:
  "multiplicities_positive example_set \<and> multiplicity_total example_set < 2 ^ 64
   \<and> unat (Constraints_size example_set) = 4
   \<and> multiplicity_total example_set = 6
   \<and> Constraints_size example_set \<le> Constraints_num_constraints example_set
   \<and> Constraints_num_constraints example_set \<noteq> Constraints_size example_set
   \<and> \<not> multiplicities_one example_set
   \<and> multiplicities_positive unit_set \<and> multiplicity_total unit_set < 2 ^ 64
   \<and> multiplicities_one unit_set
   \<and> Constraints_num_constraints unit_set = Constraints_size unit_set"
proof -
  have p: "multiplicities_positive example_set"
    by (simp add: multiplicities_positive_def example_set_simps)
  have t: "multiplicity_total example_set = 6"
    by (simp add: multiplicity_total_def example_set_simps)
  have f: "multiplicity_total example_set < 2 ^ 64"
    by (simp add: t)
  have o: "\<not> multiplicities_one example_set"
    by (simp add: multiplicities_one_def example_set_simps)
  have i: "instance_count example_set = 4"
    by (simp add: instance_count_def example_set_simps)
  have p': "multiplicities_positive unit_set"
    by (simp add: multiplicities_positive_def example_set_simps)
  have f': "multiplicity_total unit_set < 2 ^ 64"
    by (simp add: multiplicity_total_def example_set_simps)
  have o': "multiplicities_one unit_set"
    by (simp add: multiplicities_one_def example_set_simps)
  show ?thesis
    using num_constraints_and_size [OF p f] num_constraints_and_size [OF p' f'] p t o i p' f' o' by simp
qed

text \<open>
  Claim C5 as stated fails: \<open>num_constraints()\<close> adds the multiplicities in \<open>size_t\<close>.
  Three vertex-vertex instances of the multiplicities \<open>2 ^ 63 - 1\<close>, \<open>2 ^ 63 - 1\<close>
  and \<open>2\<close> add up to \<open>2 ^ 64\<close>, so \<open>num_constraints()\<close> is \<open>0\<close>, below
  \<open>size() = 3\<close>.
\<close>

theorem num_constraints_wraps_counterexample:
  "multiplicities_positive wrapping_set
   \<and> Constraints_size wrapping_set = 3
   \<and> Constraints_num_constraints wrapping_set = 0
   \<and> \<not> Constraints_size wrapping_set \<le> Constraints_num_constraints wrapping_set"
  by (simp add: multiplicities_positive_def Constraints_size_def Constraints_num_constraints_def
      vector_size_def size_t_of_long_def example_set_simps)

text \<open>
  Claim C6. On a set a program can hold, \<open>operator[]\<close> at an index below \<open>size()\<close>
  returns the instance at that place of the five sequences in the order vertex-vertex,
  edge-vertex, edge-edge, face-vertex, plane-vertex, and at any other index it throws
  \<open>out_of_range\<close>; it throws at \<open>size()\<close>; and the set after the call, throwing or not,
  is the set before it.
\<close>

theorem subscript_bounds_checked:
  assumes "addressable cs"
  shows "Constraints_subscript cs idx =
           (if idx < Constraints_size cs then Inr (all_constraints cs ! unat idx)
            else Inl (out_of_range ''Constraint index is out of range!''), cs)
       \<and> Constraints_subscript_const cs idx =
           (if idx < Constraints_size cs then Inr (all_constraints cs ! unat idx)
            else Inl (out_of_range ''Constraint index is out of range!''))
       \<and> length (all_constraints cs) = unat (Constraints_size cs)
       \<and> Constraints_subscript cs (Constraints_size cs) =
           (Inl (out_of_range ''Constraint index is out of range!''), cs)"
proof -
  have n: "length (all_constraints cs) = unat (Constraints_size cs)"
    using unat_Constraints_size [OF assms]
    by (simp add: all_constraints_def instance_count_def)
  have c: "Constraints_subscript_const cs idx =
           (if idx < Constraints_size cs then Inr (all_constraints cs ! unat idx)
            else Inl (out_of_range ''Constraint index is out of range!''))" for idx
    using assms
    by (simp add: Constraints_subscript_const_def range_lookup_nat less_Constraints_size)
  have s: "Constraints_subscript cs idx = (Constraints_subscript_const cs idx, cs)" for idx
    by (simp add: Constraints_subscript_def Constraints_subscript_const_def)
  show ?thesis
    using n c [of idx] c [of "Constraints_size cs"] by (simp add: s)
qed

text \<open>
  The third instance of the concrete set is its edge-edge constraint; the set has four
  instances and index \<open>4\<close> throws.
\<close>

theorem subscript_bounds_checked_witness:
  "addressable example_set
   \<and> Constraints_subscript example_set 2 = (Inr (EdgeEdge example_ee), example_set)
   \<and> Constraints_subscript example_set 4 =
       (Inl (out_of_range ''Constraint index is out of range!''), example_set)"
proof -
  have s: "Constraints_size example_set = 4"
    by (simp add: Constraints_size_def vector_size_def example_set_def)
  have a: "all_constraints example_set ! 2 = EdgeEdge example_ee"
    by (simp add: all_constraints_def example_set_def)
  show ?thesis
    using subscript_bounds_checked [OF addressable_example_set, of 2]
      subscript_bounds_checked [OF addressable_example_set, of 4]
    by (simp add: addressable_example_set s a)
qed

text \<open>
  Claim C9. No \<open>size_t\<close> is below zero, so both overloads of \<open>operator[]\<close> are the
  five range tests with the final \<open>throw\<close> and nothing else; on a set a program can hold
  a call throws exactly when \<open>size()\<close> is at most the index.
\<close>

theorem negative_index_branch_dead:
  "\<not> idx < (0::size_t)
   \<and> Constraints_subscript cs idx = (range_lookup cs idx, cs)
   \<and> Constraints_subscript_const cs idx = range_lookup cs idx
   \<and> (addressable cs \<longrightarrow>
        ((\<exists>e. Constraints_subscript_const cs idx = Inl e) = (Constraints_size cs \<le> idx)))"
proof -
  have "(\<exists>e. range_lookup cs idx = Inl e) = (Constraints_size cs \<le> idx)" if "addressable cs"
    using that less_Constraints_size [OF that, of idx]
    by (auto simp add: range_lookup_nat simp flip: not_less)
  then show ?thesis
    by (simp add: Constraints_subscript_def Constraints_subscript_const_def)
qed

text \<open>
  Index \<open>7\<close> of the concrete set of four instances throws from the final test, and the
  index \<open>- 1\<close>, which is \<open>2 ^ 64 - 1\<close>, passes the test for a negative index.
\<close>

theorem negative_index_branch_dead_witness:
  "addressable example_set
   \<and> Constraints_size example_set \<le> 7
   \<and> Constraints_subscript_const example_set 7 =
       Inl (out_of_range ''Constraint index is out of range!'')
   \<and> Constraints_subscript_const example_set (- 1) = range_lookup example_set (- 1)"
proof -
  have s: "Constraints_size example_set = 4"
    by (simp add: Constraints_size_def vector_size_def example_set_def)
  have le: "Constraints_size example_set \<le> 7"
    by (simp add: s)
  have "\<exists>e. Constraints_subscript_const example_set 7 = Inl e"
    using negative_index_branch_dead [of 7 example_set] addressable_example_set le
    by blast
  moreover have "instance_count example_set = 4"
    by (simp add: instance_count_def example_set_def)
  then have "range_lookup example_set 7 = Inl (out_of_range ''Constraint index is out of range!'')"
    by (simp add: range_lookup_nat [OF addressable_example_set])
  ultimately show ?thesis
    using negative_index_branch_dead [of "- 1" example_set]
      negative_index_branch_dead [of 7 example_set]
    by (simp add: addressable_example_set s)
qed

text \<open>
  Claim C10. On a set a program can hold, \<open>empty()\<close> holds exactly when there is no
  instance, which is when \<open>size()\<close> is zero; after \<open>clear()\<close> the set is empty, and
  \<open>size()\<close> and \<open>num_constraints()\<close> are zero.
\<close>

theorem empty_and_clear:
  assumes "addressable cs"
  shows "(Constraints_empty cs = (all_constraints cs = []))
       \<and> (Constraints_empty cs = (Constraints_size cs = 0))
       \<and> Constraints_empty (Constraints_clear cs)
       \<and> Constraints_size (Constraints_clear cs) = 0
       \<and> Constraints_num_constraints (Constraints_clear cs) = 0"
proof -
  have "(Constraints_size cs = 0) = (instance_count cs = 0)"
    using unat_Constraints_size [OF assms] by (simp flip: unat_eq_0)
  then have "Constraints_empty cs = (Constraints_size cs = 0)"
    by (simp add: Constraints_empty_def instance_count_def)
  moreover have "Constraints_empty cs = (all_constraints cs = [])"
    by (auto simp add: Constraints_empty_def all_constraints_def)
  ultimately show ?thesis
    by (simp add: Constraints_clear_def Constraints_empty_def Constraints_size_def
        Constraints_num_constraints_def vector_size_def)
qed

text \<open>
  The concrete set is not empty, and is after \<open>clear()\<close>.
\<close>

theorem empty_and_clear_witness:
  "addressable example_set
   \<and> \<not> Constraints_empty example_set
   \<and> Constraints_size example_set \<noteq> 0
   \<and> Constraints_empty (Constraints_clear example_set)
   \<and> Constraints_size (Constraints_clear example_set) = 0
   \<and> Constraints_num_constraints (Constraints_clear example_set) = 0"
proof -
  have "\<not> Constraints_empty example_set"
    by (simp add: Constraints_empty_def example_set_def)
  then show ?thesis
    using empty_and_clear [OF addressable_example_set] addressable_example_set by blast
qed

section \<open>Division in the smooth friction mollifier\<close>

text \<open>
  Claim C8, as amended. For a positive \<open>epsv\<close> and \<open>\<bar>s\<bar> < epsv\<close>, \<open>f0\<close> and
  \<open>f1_over_x\<close> divide by nonzero numbers only and return their closed forms, at
  \<open>s = 0\<close> too; the third function divides by \<open>s * epsv\<^sup>2\<close>, which is zero exactly
  at \<open>s = 0\<close>, and returns \<open>- 1 / (s * epsv\<^sup>2)\<close> for every other \<open>s\<close>.
\<close>

theorem friction_inside_branch:
  assumes "0 < epsv" and "\<bar>s\<bar> < epsv"
  shows "smooth_friction_f0 s epsv = Inr (- (s ^ 3 / (3 * epsv\<^sup>2)) + s\<^sup>2 / epsv + epsv / 3)
       \<and> smooth_friction_f1_over_x s epsv = Inr (- (s / epsv\<^sup>2) + 2 / epsv)
       \<and> (smooth_friction_f2_x_minus_f1_over_x3 s epsv = Inl division_by_zero) = (s = 0)
       \<and> (s \<noteq> 0 \<longrightarrow>
            smooth_friction_f2_x_minus_f1_over_x3 s epsv = Inr (- (1 / (s * epsv\<^sup>2))))"
  using assms
  by (auto simp add: smooth_friction_f0_def smooth_friction_f1_over_x_def
      smooth_friction_f2_x_minus_f1_over_x3_def checked_div_def and_then_def)

text \<open>
  The three functions at \<open>s = 1 / 2\<close> and \<open>epsv = 1\<close>, and the first two at
  \<open>s = 0\<close>.
\<close>

theorem friction_inside_branch_witness:
  "(0::real) < 1 \<and> \<bar>1 / 2 :: real\<bar> < 1 \<and> \<bar>0 :: real\<bar> < 1
   \<and> smooth_friction_f0 (1 / 2) 1 = Inr (13 / 24)
   \<and> smooth_friction_f1_over_x (1 / 2) 1 = Inr (3 / 2)
   \<and> smooth_friction_f2_x_minus_f1_over_x3 (1 / 2) 1 = Inr (- 2)
   \<and> smooth_friction_f0 0 1 = Inr (1 / 3)
   \<and> smooth_friction_f1_over_x 0 1 = Inr 2"
  using friction_inside_branch [of 1 "1 / 2"] friction_inside_branch [of 1 0]
  by (simp add: power2_eq_square power3_eq_cube)

text \<open>
  Claim C8 as stated fails: at \<open>s = 0\<close> and \<open>epsv = 1\<close> the third function divides by
  zero.
\<close>

theorem friction_third_divides_by_zero_counterexample:
  "(0::real) < 1 \<and> \<bar>0::real\<bar> < 1
   \<and> smooth_friction_f2_x_minus_f1_over_x3 0 1 = Inl division_by_zero"
  by (simp add: smooth_friction_f2_x_minus_f1_over_x3_def checked_div_def and_then_def)

section \<open>Further properties of the compositions\<close>

text \<open>
  Where the barrier is zero from its activation threshold on, the shared potential is
  zero for every argument that is at least \<open>(minimum_distance + dhat)\<^sup>2\<close>: the threshold
  the code passes is the one for an argument that is a squared distance.
\<close>

theorem potential_zero_beyond_activation:
  assumes "\<And>x t. t \<le> x \<Longrightarrow> barrier ext x t = 0"
    and "(minimum_distance c + dhat)\<^sup>2 \<le> distance"
  shows "compute_potential_common ext c distance dhat = 0"
proof -
  have "2 * minimum_distance c * dhat + dhat * dhat
      \<le> distance - minimum_distance c * minimum_distance c"
    using assms(2) by (simp add: power2_eq_square algebra_simps)
  then show ?thesis
    by (simp add: compute_potential_common_def assms(1))
qed

text \<open>
  With the minimum distance \<open>1 / 2\<close> and \<open>dhat = 1\<close> the potential is zero at
  \<open>9 / 4\<close>, and is not at \<open>2\<close>.
\<close>

theorem potential_zero_beyond_activation_witness:
  "(minimum_distance example_ee + 1)\<^sup>2 \<le> 9 / 4
   \<and> compute_potential_common example_externals example_ee (9 / 4) 1 = 0
   \<and> compute_potential_common example_externals example_ee 2 1 = 1 / 112"
proof -
  have b: "barrier example_externals x t = 0" if "t \<le> x" for x t
    using that by (simp add: example_externals_def example_barrier_def)
  have d: "(minimum_distance example_ee + 1)\<^sup>2 \<le> 9 / 4"
    by (simp add: example_ee_def power2_eq_square)
  have "compute_potential_common example_externals example_ee 2 1 = 1 / 112"
    by (simp add: compute_potential_common_def example_externals_def example_barrier_def
        example_ee_def power3_eq_cube)
  then show ?thesis
    using potential_zero_beyond_activation [of example_externals example_ee 1 "9 / 4", OF b d] d
    by simp
qed

text \<open>
  The edge-edge potential is the mollifier times the barrier at the distance that
  \<open>edge_edge_distance\<close> returns for the four end points.
\<close>

theorem EdgeEdge_potential_is_mollified:
  "EdgeEdgeConstraint_compute_potential ext c V E F dhat =
     edge_edge_mollifier ext
       (row V (coeff E (sint (edge0_index c)) 0)) (row V (coeff E (sint (edge0_index c)) 1))
       (row V (coeff E (sint (edge1_index c)) 0)) (row V (coeff E (sint (edge1_index c)) 1))
       (eps_x c)
     * barrier ext
         (edge_edge_distance_auto ext
            (row V (coeff E (sint (edge0_index c)) 0)) (row V (coeff E (sint (edge0_index c)) 1))
            (row V (coeff E (sint (edge1_index c)) 0)) (row V (coeff E (sint (edge1_index c)) 1))
          - (minimum_distance c)\<^sup>2)
         (2 * minimum_distance c * dhat + dhat\<^sup>2)"
  by (simp add: EdgeEdgeConstraint_compute_potential_def compute_potential_common_def
      power2_eq_square Let_def)

text \<open>
  The face-vertex and plane-vertex potentials and gradients carry no multiplicity: they
  are the barrier at the variant's distance, and its derivative there times each entry
  of the distance gradient.
\<close>

theorem unweighted_variants:
  "FaceVertexConstraint_compute_potential ext fv V E F dhat =
     barrier ext
       (point_triangle_distance ext
          (row V (sint (FaceVertexConstraint.vertex_index fv)))
          (row V (coeff F (sint (face_index fv)) 0))
          (row V (coeff F (sint (face_index fv)) 1))
          (row V (coeff F (sint (face_index fv)) 2)) P_T
        - (minimum_distance fv)\<^sup>2)
       (2 * minimum_distance fv * dhat + dhat\<^sup>2)
   \<and> PlaneVertexConstraint_compute_potential ext pv V E F dhat =
     barrier ext
       (point_plane_distance ext
          (row V (sint (PlaneVertexConstraint.vertex_index pv)))
          (plane_origin pv) (plane_normal pv)
        - (minimum_distance pv)\<^sup>2)
       (2 * minimum_distance pv * dhat + dhat\<^sup>2)
   \<and> FaceVertexConstraint_compute_potential_gradient ext fv V E F dhat =
     map (\<lambda>g. barrier_gradient ext
            (point_triangle_distance ext
               (row V (sint (FaceVertexConstraint.vertex_index fv)))
               (row V (coeff F (sint (face_index fv)) 0))
               (row V (coeff F (sint (face_index fv)) 1))
               (row V (coeff F (sint (face_index fv)) 2)) P_T
             - (minimum_distance fv)\<^sup>2)
            (2 * minimum_distance fv * dhat + dhat\<^sup>2) * g)
       (point_triangle_distance_gradient ext
          (row V (sint (FaceVertexConstraint.vertex_index fv)))
          (row V (coeff F (sint (face_index fv)) 0))
          (row V (coeff F (sint (face_index fv)) 1))
          (row V (coeff F (sint (face_index fv)) 2)) P_T)
   \<and> PlaneVertexConstraint_compute_potential_gradient ext pv V E F dhat =
     map (\<lambda>g. barrier_gradient ext
            (point_plane_distance ext
               (row V (sint (PlaneVertexConstraint.vertex_index pv)))
               (plane_origin pv) (plane_normal pv)
             - (minimum_distance pv)\<^sup>2)
            (2 * minimum_distance pv * dhat + dhat\<^sup>2) * g)
       (point_plane_distance_gradient ext
          (row V (sint (PlaneVertexConstraint.vertex_index pv)))
          (plane_origin pv) (plane_normal pv))"
  by (simp add: FaceVertexConstraint_compute_potential_def
      PlaneVertexConstraint_compute_potential_def
      FaceVertexConstraint_compute_potential_gradient_def
      PlaneVertexConstraint_compute_potential_gradient_def
      compute_potential_common_def compute_potential_gradient_common_def
      scalar_times_vec_def power2_eq_square Let_def)

end
